theory Spec2Isabelle
  imports Complex_Main "HOL-Library.Sublist"
begin

section \<open>Errors raised by the Python code\<close>

datatype py_error =
    ValueError
  | ZeroDivisionError
  | KeyError
  | ValidationError
  | OperationalError
  | JSONDecodeError
  | OracleError

section \<open>Chunker (src/analysis/runner.py, chunk\_text)\<close>

text \<open>
  Python's slice \<open>xs[i:j]\<close> for integer bounds: a negative bound counts from the end,
  and both bounds are clamped to the list.
\<close>

definition py_slice_bound :: "int \<Rightarrow> int \<Rightarrow> nat" where
  "py_slice_bound n i = nat (if i < 0 then max (n + i) 0 else min i n)"

definition py_slice :: "'a list \<Rightarrow> int \<Rightarrow> int \<Rightarrow> 'a list" where
  "py_slice xs i j =
     (let n = int (length xs); lo = py_slice_bound n i; hi = py_slice_bound n j
      in take (hi - lo) (drop lo xs))"

text \<open>
  The body of \<open>for start in range(0, len(token_ids), step)\<close> for a positive step, from the
  current value of \<open>start\<close>: the window \<open>(start, end)\<close> with
  \<open>end = min(start + max_tokens, len(token_ids))\<close> is recorded, and the loop leaves by
  \<open>break\<close> when \<open>end == len(token_ids)\<close>. For a negative step the range is empty.
\<close>

function chunk_windows :: "int \<Rightarrow> int \<Rightarrow> int \<Rightarrow> int \<Rightarrow> (int \<times> int) list" where
  "chunk_windows n max_tokens step start =
     (if step \<le> 0 \<or> n \<le> start then []
      else let end = min (start + max_tokens) n
           in (start, end) #
              (if end = n then [] else chunk_windows n max_tokens step (start + step)))"
  by pat_completeness auto
termination
  by (relation "measure (\<lambda>(n, max_tokens, step, start). nat (n - start))") auto

declare chunk_windows.simps [simp del]

text \<open>
  \<open>chunk_text\<close>; the tokenizer is an oracle given by \<open>encode\<close> and \<open>decode\<close>.
  \<open>range\<close> raises \<open>ValueError\<close> for a step of zero.
\<close>

definition chunk_text ::
  "(string \<Rightarrow> 't list) \<Rightarrow> ('t list \<Rightarrow> string) \<Rightarrow> string \<Rightarrow> int \<Rightarrow> int \<Rightarrow> py_error + string list"
where
  "chunk_text encode decode text max_tokens overlap =
     (let token_ids = encode text; n = int (length token_ids)
      in if n \<le> max_tokens then Inr [text]
         else let step = max_tokens - overlap
              in if step = 0 then Inl ValueError
                 else Inr (map (\<lambda>(start, end). decode (py_slice token_ids start end))
                            (chunk_windows n max_tokens step 0)))"

section \<open>Result models (src/data/models.py)\<close>

text \<open>
  Raising an exception is the left injection; \<open>bind_err\<close> sequences two steps and
  \<open>map_err\<close> is a list comprehension whose body may raise: the first exception leaves it.
\<close>

fun bind_err :: "py_error + 'a \<Rightarrow> ('a \<Rightarrow> py_error + 'b) \<Rightarrow> py_error + 'b" where
  "bind_err (Inl e) f = Inl e"
| "bind_err (Inr x) f = f x"

fun map_err :: "('a \<Rightarrow> py_error + 'b) \<Rightarrow> 'a list \<Rightarrow> py_error + 'b list" where
  "map_err f [] = Inr []"
| "map_err f (x # xs) =
     bind_err (f x) (\<lambda>y. bind_err (map_err f xs) (\<lambda>ys. Inr (y # ys)))"

text \<open>
  The pydantic models. Scores are Python floats; they are modelled as real numbers, so
  rounding is left out. \<open>analyzed_at\<close> is the ISO text of the clock reading, which every
  function that builds a result takes as the parameter \<open>now\<close>. The fields of the three
  models carry the prefixes \<open>sr_\<close>, \<open>er_\<close> and \<open>lf_\<close>.
\<close>

record sentiment_result =
  sr_source_type :: string
  sr_source_id :: int
  sr_label :: string
  sr_positive_score :: real
  sr_negative_score :: real
  sr_neutral_score :: real
  sr_model_name :: string
  sr_analyzed_at :: string

record emotion_result =
  er_source_type :: string
  er_source_id :: int
  er_anger_score :: real
  er_disgust_score :: real
  er_fear_score :: real
  er_joy_score :: real
  er_neutral_score :: real
  er_sadness_score :: real
  er_surprise_score :: real
  er_dominant_emotion :: string
  er_model_name :: string
  er_analyzed_at :: string

text \<open>The field constraints: \<open>pattern\<close> on strings and \<open>ge=0.0, le=1.0\<close> on scores.\<close>

definition valid_source_type :: "string \<Rightarrow> bool" where
  "valid_source_type s = (s = ''blog'' \<or> s = ''oral_history'')"

definition valid_label :: "string \<Rightarrow> bool" where
  "valid_label s = (s = ''positive'' \<or> s = ''negative'' \<or> s = ''neutral'')"

definition valid_score :: "real \<Rightarrow> bool" where
  "valid_score x = (0 \<le> x \<and> x \<le> 1)"

text \<open>The constructors: pydantic validates the fields and raises \<open>ValidationError\<close>.\<close>

definition SentimentResult ::
  "string \<Rightarrow> int \<Rightarrow> string \<Rightarrow> real \<Rightarrow> real \<Rightarrow> real \<Rightarrow> string \<Rightarrow> string
     \<Rightarrow> py_error + sentiment_result"
where
  "SentimentResult source_type source_id label pos neg neu model_name now =
     (if valid_source_type source_type \<and> valid_label label \<and>
         valid_score pos \<and> valid_score neg \<and> valid_score neu
      then Inr \<lparr>sr_source_type = source_type, sr_source_id = source_id, sr_label = label,
                sr_positive_score = pos, sr_negative_score = neg, sr_neutral_score = neu,
                sr_model_name = model_name, sr_analyzed_at = now\<rparr>
      else Inl ValidationError)"

definition EmotionResult ::
  "string \<Rightarrow> int \<Rightarrow> real \<Rightarrow> real \<Rightarrow> real \<Rightarrow> real \<Rightarrow> real \<Rightarrow> real \<Rightarrow> real \<Rightarrow> string
     \<Rightarrow> string \<Rightarrow> string \<Rightarrow> py_error + emotion_result"
where
  "EmotionResult source_type source_id anger disgust fear joy neutral sadness surprise
       dominant model_name now =
     (if valid_source_type source_type \<and> valid_score anger \<and> valid_score disgust \<and>
         valid_score fear \<and> valid_score joy \<and> valid_score neutral \<and>
         valid_score sadness \<and> valid_score surprise
      then Inr \<lparr>er_source_type = source_type, er_source_id = source_id,
                er_anger_score = anger, er_disgust_score = disgust, er_fear_score = fear,
                er_joy_score = joy, er_neutral_score = neutral, er_sadness_score = sadness,
                er_surprise_score = surprise, er_dominant_emotion = dominant,
                er_model_name = model_name, er_analyzed_at = now\<rparr>
      else Inl ValidationError)"

section \<open>Aggregator (src/analysis/runner.py)\<close>

text \<open>
  \<open>max(d, key=d.get)\<close> over a dictionary, given as its items in insertion order: the
  running maximum is replaced only by a strictly greater value, so the first of several
  maximal keys is returned. \<open>max\<close> of an empty iterable raises \<open>ValueError\<close>.
\<close>

fun py_max_from :: "(string \<times> real) list \<Rightarrow> string \<times> real \<Rightarrow> string" where
  "py_max_from [] best = fst best"
| "py_max_from ((k, v) # rest) best =
     (if snd best < v then py_max_from rest (k, v) else py_max_from rest best)"

definition py_max_key :: "(string \<times> real) list \<Rightarrow> py_error + string" where
  "py_max_key items = (case items of [] \<Rightarrow> Inl ValueError | x # rest \<Rightarrow> Inr (py_max_from rest x))"

text \<open>\<open>d[k]\<close> on a dictionary given by its items: a missing key raises \<open>KeyError\<close>.\<close>

definition dict_get :: "(string \<times> real) list \<Rightarrow> string \<Rightarrow> py_error + real" where
  "dict_get items k = (case map_of items k of None \<Rightarrow> Inl KeyError | Some v \<Rightarrow> Inr v)"

text \<open>\<open>sum(xs) / n\<close> with \<open>n = len(results)\<close>: division by zero raises.\<close>

definition py_sum_div :: "real list \<Rightarrow> nat \<Rightarrow> py_error + real" where
  "py_sum_div xs n = (if n = 0 then Inl ZeroDivisionError else Inr (sum_list xs / real n))"

definition aggregate_sentiment ::
  "sentiment_result list \<Rightarrow> string \<Rightarrow> int \<Rightarrow> string \<Rightarrow> string \<Rightarrow> py_error + sentiment_result"
where
  "aggregate_sentiment results source_type source_id model_name now =
     (let n = length results in
      bind_err (py_sum_div (map sr_positive_score results) n) (\<lambda>pos.
      bind_err (py_sum_div (map sr_negative_score results) n) (\<lambda>neg.
      bind_err (py_sum_div (map sr_neutral_score results) n) (\<lambda>neu.
      bind_err (py_max_key [(''positive'', pos), (''negative'', neg), (''neutral'', neu)])
        (\<lambda>label.
      SentimentResult source_type source_id label pos neg neu model_name now)))))"

text \<open>The emotion labels in their declared order, each with its field (\<open>getattr\<close>).\<close>

definition emotion_fields :: "(string \<times> (emotion_result \<Rightarrow> real)) list" where
  "emotion_fields =
     [(''anger'', er_anger_score), (''disgust'', er_disgust_score), (''fear'', er_fear_score),
      (''joy'', er_joy_score), (''neutral'', er_neutral_score),
      (''sadness'', er_sadness_score), (''surprise'', er_surprise_score)]"

definition aggregate_emotions ::
  "emotion_result list \<Rightarrow> string \<Rightarrow> int \<Rightarrow> string \<Rightarrow> string \<Rightarrow> py_error + emotion_result"
where
  "aggregate_emotions results source_type source_id model_name now =
     (let n = length results in
      bind_err (map_err (\<lambda>(e, field).
                  bind_err (py_sum_div (map field results) n) (\<lambda>m. Inr (e, m)))
                emotion_fields) (\<lambda>means.
      bind_err (py_max_key means) (\<lambda>dominant.
      bind_err (dict_get means ''anger'') (\<lambda>anger.
      bind_err (dict_get means ''disgust'') (\<lambda>disgust.
      bind_err (dict_get means ''fear'') (\<lambda>fear.
      bind_err (dict_get means ''joy'') (\<lambda>joy.
      bind_err (dict_get means ''neutral'') (\<lambda>neutral.
      bind_err (dict_get means ''sadness'') (\<lambda>sadness.
      bind_err (dict_get means ''surprise'') (\<lambda>surprise.
      EmotionResult source_type source_id anger disgust fear joy neutral sadness surprise
        dominant model_name now))))))))))"

section \<open>Analyzers (src/analysis/sentiment.py, src/analysis/emotion.py)\<close>

text \<open>\<open>str.lower\<close> and \<open>str.upper\<close> on ASCII text.\<close>

definition lower_char :: "char \<Rightarrow> char" where
  "lower_char c =
     (if 65 \<le> (of_char c :: nat) \<and> (of_char c :: nat) \<le> 90
      then char_of ((of_char c :: nat) + 32) else c)"

definition upper_char :: "char \<Rightarrow> char" where
  "upper_char c =
     (if 97 \<le> (of_char c :: nat) \<and> (of_char c :: nat) \<le> 122
      then char_of ((of_char c :: nat) - 32) else c)"

definition lower :: "string \<Rightarrow> string" where
  "lower s = map lower_char s"

definition upper :: "string \<Rightarrow> string" where
  "upper s = map upper_char s"

text \<open>
  \<open>scores[k] = v\<close> for a key that is already in the dictionary: the key keeps its place
  in the insertion order.
\<close>

definition dict_set :: "(string \<times> real) list \<Rightarrow> string \<Rightarrow> real \<Rightarrow> (string \<times> real) list" where
  "dict_set items k v = map (\<lambda>(k', v'). if k' = k then (k', v) else (k', v')) items"

definition LABEL_MAP :: "(string \<times> string) list" where
  "LABEL_MAP =
     [(''negative'', ''negative''), (''neutral'', ''neutral''), (''positive'', ''positive''),
      (''LABEL_0'', ''negative''), (''LABEL_1'', ''neutral''), (''LABEL_2'', ''positive'')]"

definition EMOTION_LABELS :: "string list" where
  "EMOTION_LABELS =
     [''anger'', ''disgust'', ''fear'', ''joy'', ''neutral'', ''sadness'', ''surprise'']"

text \<open>
  An analyzer holds its model name, the scoring pipeline (an oracle that returns the
  \<open>(label, score)\<close> items or raises) and the tokenizer of that pipeline.
\<close>

record analyzer =
  an_model_name :: string
  an_pipe :: "string \<Rightarrow> py_error + (string \<times> real) list"
  an_encode :: "string \<Rightarrow> nat list"
  an_decode :: "nat list \<Rightarrow> string"

text \<open>The loop \<open>for item in results\<close> of the two \<open>analyze_text\<close> methods.\<close>

definition sentiment_scores :: "(string \<times> real) list \<Rightarrow> (string \<times> real) list" where
  "sentiment_scores results =
     foldl (\<lambda>scores (lbl, score).
              let mapped_label = (case map_of LABEL_MAP lbl of Some m \<Rightarrow> m | None \<Rightarrow> lower lbl)
              in if mapped_label \<in> fst ` set scores then dict_set scores mapped_label score
                 else scores)
           [(''positive'', 0), (''negative'', 0), (''neutral'', 0)] results"

definition emotion_scores :: "(string \<times> real) list \<Rightarrow> (string \<times> real) list" where
  "emotion_scores results =
     foldl (\<lambda>scores (lbl, score).
              if lower lbl \<in> fst ` set scores then dict_set scores (lower lbl) score
              else scores)
           (map (\<lambda>e. (e, 0)) EMOTION_LABELS) results"

definition sentiment_analyze_text ::
  "analyzer \<Rightarrow> string \<Rightarrow> string \<Rightarrow> string \<Rightarrow> int \<Rightarrow> py_error + sentiment_result"
where
  "sentiment_analyze_text sa now text source_type source_id =
     bind_err (an_pipe sa text) (\<lambda>results.
     let scores = sentiment_scores results in
     bind_err (py_max_key scores) (\<lambda>label.
     bind_err (dict_get scores ''positive'') (\<lambda>pos.
     bind_err (dict_get scores ''negative'') (\<lambda>neg.
     bind_err (dict_get scores ''neutral'') (\<lambda>neu.
     SentimentResult source_type source_id label pos neg neu (an_model_name sa) now)))))"

definition emotion_analyze_text ::
  "analyzer \<Rightarrow> string \<Rightarrow> string \<Rightarrow> string \<Rightarrow> int \<Rightarrow> py_error + emotion_result"
where
  "emotion_analyze_text ea now text source_type source_id =
     bind_err (an_pipe ea text) (\<lambda>results.
     let scores = emotion_scores results in
     bind_err (py_max_key scores) (\<lambda>dominant.
     bind_err (dict_get scores ''anger'') (\<lambda>anger.
     bind_err (dict_get scores ''disgust'') (\<lambda>disgust.
     bind_err (dict_get scores ''fear'') (\<lambda>fear.
     bind_err (dict_get scores ''joy'') (\<lambda>joy.
     bind_err (dict_get scores ''neutral'') (\<lambda>neutral.
     bind_err (dict_get scores ''sadness'') (\<lambda>sadness.
     bind_err (dict_get scores ''surprise'') (\<lambda>surprise.
     EmotionResult source_type source_id anger disgust fear joy neutral sadness surprise
       dominant (an_model_name ea) now)))))))))"

text \<open>
  The sentiment and emotion blocks of \<open>_analyze_rows\<close> up to the insert: chunk the text
  with the defaults \<open>max_tokens = 400\<close> and \<open>overlap = 100\<close>, score every chunk, and
  take the only result as it is or aggregate several.
\<close>

definition row_sentiment ::
  "analyzer \<Rightarrow> string \<Rightarrow> string \<Rightarrow> string \<Rightarrow> int \<Rightarrow> py_error + sentiment_result"
where
  "row_sentiment sa now text source_type row_id =
     bind_err (chunk_text (an_encode sa) (an_decode sa) text 400 100) (\<lambda>chunks.
     bind_err (map_err (\<lambda>c. sentiment_analyze_text sa now c source_type row_id) chunks)
       (\<lambda>chunk_results.
     if length chunk_results = 1 then Inr (chunk_results ! 0)
     else aggregate_sentiment chunk_results source_type row_id (an_model_name sa) now))"

definition row_emotion ::
  "analyzer \<Rightarrow> string \<Rightarrow> string \<Rightarrow> string \<Rightarrow> int \<Rightarrow> py_error + emotion_result"
where
  "row_emotion ea now text source_type row_id =
     bind_err (chunk_text (an_encode ea) (an_decode ea) text 400 100) (\<lambda>chunks.
     bind_err (map_err (\<lambda>c. emotion_analyze_text ea now c source_type row_id) chunks)
       (\<lambda>chunk_results.
     if length chunk_results = 1 then Inr (chunk_results ! 0)
     else aggregate_emotions chunk_results source_type row_id (an_model_name ea) now))"

section \<open>Specification predicates for the aggregator\<close>


text \<open>The unweighted arithmetic mean.\<close>

definition mean :: "real list \<Rightarrow> real" where
  "mean xs = sum_list xs / real (length xs)"

text \<open>The field constraints of the two result models, as predicates on a record.\<close>

definition valid_sentiment :: "sentiment_result \<Rightarrow> bool" where
  "valid_sentiment r =
     (valid_source_type (sr_source_type r) \<and> valid_label (sr_label r) \<and>
      valid_score (sr_positive_score r) \<and> valid_score (sr_negative_score r) \<and>
      valid_score (sr_neutral_score r))"

definition valid_emotion :: "emotion_result \<Rightarrow> bool" where
  "valid_emotion r =
     (valid_source_type (er_source_type r) \<and> valid_score (er_anger_score r) \<and>
      valid_score (er_disgust_score r) \<and> valid_score (er_fear_score r) \<and>
      valid_score (er_joy_score r) \<and> valid_score (er_neutral_score r) \<and>
      valid_score (er_sadness_score r) \<and> valid_score (er_surprise_score r))"

text \<open>
  Chunk results used as concrete inputs: two emotion results with joy 0.8 and 0.4 and
  neutral 0.2 and 0.6 (tests/test\_runner.py, \<open>test_averages_all_seven_emotions\<close>), and two
  sentiment results (\<open>test_averages_scores\<close>).
\<close>

definition chunk_a :: emotion_result where
  "chunk_a = \<lparr>er_source_type = ''blog'', er_source_id = 1, er_anger_score = 0,
     er_disgust_score = 0, er_fear_score = 0, er_joy_score = 0.8, er_neutral_score = 0.2,
     er_sadness_score = 0, er_surprise_score = 0, er_dominant_emotion = ''joy'',
     er_model_name = ''m'', er_analyzed_at = ''t0''\<rparr>"


definition chunk_s :: sentiment_result where
  "chunk_s = \<lparr>sr_source_type = ''blog'', sr_source_id = 1, sr_label = ''positive'',
     sr_positive_score = 0.8, sr_negative_score = 0.1, sr_neutral_score = 0.1,
     sr_model_name = ''m'', sr_analyzed_at = ''t0''\<rparr>"


text \<open>
  Analyzers with fixed pipelines (tests/conftest.py, \<open>mock_sentiment_pipeline\<close>), a
  tokenizer with one token per character, and the results they yield on a short text.
\<close>

definition mock_sentiment :: analyzer where
  "mock_sentiment = \<lparr>an_model_name = ''test-sentiment-model'',
     an_pipe = (\<lambda>t. Inr [(''positive'', 0.20), (''neutral'', 0.65), (''negative'', 0.15)]),
     an_encode = map of_char, an_decode = map char_of\<rparr>"

definition mock_emotion :: analyzer where
  "mock_emotion = \<lparr>an_model_name = ''test-emotion-model'',
     an_pipe = (\<lambda>t. Inr [(''joy'', 0.7), (''neutral'', 0.2), (''sadness'', 0.1)]),
     an_encode = map of_char, an_decode = map char_of\<rparr>"

definition mock_sentiment_out :: sentiment_result where
  "mock_sentiment_out = \<lparr>sr_source_type = ''blog'', sr_source_id = 1, sr_label = ''neutral'',
     sr_positive_score = 0.20, sr_negative_score = 0.15, sr_neutral_score = 0.65,
     sr_model_name = ''test-sentiment-model'', sr_analyzed_at = ''t0''\<rparr>"

definition mock_emotion_out :: emotion_result where
  "mock_emotion_out = \<lparr>er_source_type = ''blog'', er_source_id = 1, er_anger_score = 0,
     er_disgust_score = 0, er_fear_score = 0, er_joy_score = 0.7, er_neutral_score = 0.2,
     er_sadness_score = 0.1, er_surprise_score = 0, er_dominant_emotion = ''joy'',
     er_model_name = ''test-emotion-model'', er_analyzed_at = ''t0''\<rparr>"

section \<open>Transcript segmenter (src/scraping/oral\_history\_scraper.py)\<close>

text \<open>
  Text is ASCII here. \<open>is_space\<close> is the whitespace of \<open>str.strip\<close> and of the regular
  expression class \<open>\s\<close>: tab, line feed, vertical tab, form feed, carriage return, the
  separators 28 to 31 and the space.
\<close>

definition is_space :: "char \<Rightarrow> bool" where
  "is_space c =
     ((9 \<le> (of_char c :: nat) \<and> (of_char c :: nat) \<le> 13) \<or>
      (28 \<le> (of_char c :: nat) \<and> (of_char c :: nat) \<le> 32))"

definition is_upper_letter :: "char \<Rightarrow> bool" where
  "is_upper_letter c = (65 \<le> (of_char c :: nat) \<and> (of_char c :: nat) \<le> 90)"

definition is_lower_letter :: "char \<Rightarrow> bool" where
  "is_lower_letter c = (97 \<le> (of_char c :: nat) \<and> (of_char c :: nat) \<le> 122)"

text \<open>The character class \<open>[A-Za-z\s.\-']\<close> of the speaker pattern.\<close>

definition is_name_char :: "char \<Rightarrow> bool" where
  "is_name_char c =
     (is_upper_letter c \<or> is_lower_letter c \<or> is_space c \<or>
      c = CHR ''.'' \<or> c = CHR ''-'' \<or> c = CHR 0x27)"

text \<open>\<open>str.strip()\<close>, \<open>" ".join(parts)\<close> and \<open>text.split("\n")\<close>.\<close>

definition strip :: "string \<Rightarrow> string" where
  "strip s = rev (dropWhile is_space (rev (dropWhile is_space s)))"

fun join_space :: "string list \<Rightarrow> string" where
  "join_space [] = []"
| "join_space [p] = p"
| "join_space (p # q # ps) = p @ CHR '' '' # join_space (q # ps)"

fun split_lines :: "string \<Rightarrow> string list" where
  "split_lines [] = [[]]"
| "split_lines (c # cs) =
     (if c = CHR 0x0A then [] # split_lines cs
      else (case split_lines cs of l # ls \<Rightarrow> (c # l) # ls | [] \<Rightarrow> [[c]]))"

text \<open>
  \<open>re.sub(r"\s+", " ", s)\<close>: every maximal run of whitespace becomes one space. The flag
  says that the previous character was whitespace.
\<close>

fun collapse_from :: "bool \<Rightarrow> string \<Rightarrow> string" where
  "collapse_from in_run [] = []"
| "collapse_from in_run (c # cs) =
     (if is_space c then (if in_run then collapse_from True cs
                          else CHR '' '' # collapse_from True cs)
      else c # collapse_from False cs)"

definition collapse_ws :: "string \<Rightarrow> string" where
  "collapse_ws s = collapse_from False s"

text \<open>
  \<open>re.match(r"^([A-Z][A-Za-z\s.\-']+?):\s*", line)\<close>. The colon is not in the character
  class, so the lazy repetition can only stop at the end of the run of class characters
  after the capital letter: the line matches when that run is not empty and a colon
  follows it. The result is group 1 and the line after the match, \<open>line[match.end():]\<close>.
\<close>

definition match_speaker :: "string \<Rightarrow> (string \<times> string) option" where
  "match_speaker line =
     (case line of
        [] \<Rightarrow> None
      | c # rest \<Rightarrow>
          if is_upper_letter c then
            (let body = takeWhile is_name_char rest; after = dropWhile is_name_char rest
             in if body \<noteq> [] \<and> after \<noteq> [] \<and> hd after = CHR '':''
                then Some (c # body, dropWhile is_space (tl after))
                else None)
          else None)"

text \<open>A segment is the dictionary with the keys \<open>speaker\<close> and \<open>text\<close>.\<close>

record segment =
  seg_speaker :: string
  seg_text :: string

text \<open>
  The block that saves a turn; the source has it twice, in the loop and after it.
  \<open>x in y\<close> on strings is the contiguous substring test.
\<close>

definition normalize_parts :: "string list \<Rightarrow> string" where
  "normalize_parts parts = collapse_ws (strip (join_space parts))"

definition flush_turn :: "string \<Rightarrow> string option \<Rightarrow> string list \<Rightarrow> segment list \<Rightarrow> segment list" where
  "flush_turn interviewer_last_name current_speaker current_text_parts segments =
     (case current_speaker of
        None \<Rightarrow> segments
      | Some sp \<Rightarrow>
          if current_text_parts = [] then segments
          else let segment_text = normalize_parts current_text_parts
               in if length segment_text > 20
                  then segments @
                    [\<lparr>seg_speaker =
                        (if sublist (upper interviewer_last_name) (upper sp)
                         then ''interviewer'' else ''astronaut''),
                      seg_text = segment_text\<rparr>]
                  else segments)"

text \<open>One iteration of \<open>for line in text.split("\n")\<close> on the three loop variables.\<close>

definition segment_step ::
  "string \<Rightarrow> segment list \<times> string option \<times> string list \<Rightarrow> string
     \<Rightarrow> segment list \<times> string option \<times> string list"
where
  "segment_step interviewer_last_name state line =
     (case state of (segments, current_speaker, current_text_parts) \<Rightarrow>
        (case match_speaker line of
           Some (name, remainder) \<Rightarrow>
             (flush_turn interviewer_last_name current_speaker current_text_parts segments,
              Some (strip name),
              if strip remainder \<noteq> [] then [remainder] else [])
         | None \<Rightarrow>
             (segments, current_speaker,
              if strip line \<noteq> [] then current_text_parts @ [strip line]
              else current_text_parts)))"

definition split_segments :: "string \<Rightarrow> string \<Rightarrow> segment list" where
  "split_segments text interviewer_last_name =
     (case foldl (segment_step interviewer_last_name) ([], None, []) (split_lines text) of
        (segments, current_speaker, current_text_parts) \<Rightarrow>
          flush_turn interviewer_last_name current_speaker current_text_parts segments)"

section \<open>Specification of the segmenter: speaker turns\<close>

text \<open>
  The spec's state machine, in its words: a speaker line closes the open turn and opens a
  new one with the remainder as initial buffer; other non-blank lines are appended,
  trimmed, to the buffer; the end of the input closes the open turn. \<open>speaker_turns\<close>
  lists the closed turns in order, each with its speaker label and its buffer.
\<close>

definition turn_step ::
  "(string \<times> string list) list \<times> string option \<times> string list \<Rightarrow> string
     \<Rightarrow> (string \<times> string list) list \<times> string option \<times> string list"
where
  "turn_step state line =
     (case state of (turns, current, buffer) \<Rightarrow>
        (case match_speaker line of
           Some (name, remainder) \<Rightarrow>
             (turns @ (case current of None \<Rightarrow> [] | Some sp \<Rightarrow> [(sp, buffer)]),
              Some (strip name),
              if strip remainder \<noteq> [] then [remainder] else [])
         | None \<Rightarrow>
             (turns, current, if strip line \<noteq> [] then buffer @ [strip line] else buffer)))"

definition speaker_turns :: "string \<Rightarrow> (string \<times> string list) list" where
  "speaker_turns text =
     (case foldl turn_step ([], None, []) (split_lines text) of
        (turns, current, buffer) \<Rightarrow>
          turns @ (case current of None \<Rightarrow> [] | Some sp \<Rightarrow> [(sp, buffer)]))"

text \<open>The segments a closed turn contributes: one, or none when it is dropped.\<close>

definition emit_turn :: "string \<Rightarrow> string \<times> string list \<Rightarrow> segment list" where
  "emit_turn interviewer_last_name turn =
     flush_turn interviewer_last_name (Some (fst turn)) (snd turn) []"

text \<open>The input of the spec's segmenter example.\<close>

definition sample_transcript :: string where
  "sample_transcript =
     ''WRIGHT: Hi there, how are you doing today?'' @ [CHR 0x0A] @
     ''WHITSON: I am doing well thank you for asking me.''"

text \<open>
  Whitespace normalisation, in the spec's words: internal whitespace collapsed to single
  spaces. \<open>words_of\<close> lists the maximal runs of non-whitespace characters of a text, as
  \<open>str.split()\<close> does; the normal form is these words joined by single spaces, which has
  no whitespace at either end.
\<close>

function words_of :: "string \<Rightarrow> string list" where
  "words_of s =
     (case dropWhile is_space s of
        [] \<Rightarrow> []
      | c # cs \<Rightarrow> (c # takeWhile (\<lambda>x. \<not> is_space x) cs) #
                   words_of (dropWhile (\<lambda>x. \<not> is_space x) cs))"
  by pat_completeness auto
termination
proof (relation "measure length", goal_cases)
  case 1 show ?case by simp
next
  case (2 s c cs)
  have "length (dropWhile (\<lambda>x. \<not> is_space x) cs) \<le> length cs" by (rule length_dropWhile_le)
  moreover have "length (c # cs) \<le> length s" using 2 [symmetric] by (simp add: length_dropWhile_le)
  ultimately show ?case by simp
qed

declare words_of.simps [simp del]

definition single_spaced :: "string \<Rightarrow> string" where
  "single_spaced s = join_space (words_of s)"

text \<open>The text without its trailing whitespace (the right half of \<open>strip\<close>).\<close>

definition rstrip :: "string \<Rightarrow> string" where
  "rstrip s = rev (dropWhile is_space (rev s))"

text \<open>
  A transcript with three turns. The second one has 26 characters as written and 20 after
  normalisation; the third has 24 as written and 21 after normalisation.
\<close>

definition padded_transcript :: string where
  "padded_transcript =
     ''WRIGHT: Hi there, how are you doing today?'' @ [CHR 0x0A] @
     ''WHITSON: I am   fine   thank   you.'' @ [CHR 0x0A] @
     ''WHITSON: I am fine,    thank you.''"

section \<open>Row store (src/data/db.py)\<close>

text \<open>
  The tables of \<open>SCHEMA_SQL\<close>, each as the list of its rows in insertion order. Dates and
  time stamps are their ISO texts; a nullable column is an option. A stored result is the
  pair of its \<open>id\<close> column and the result's columns.
\<close>

record linguistic_features =
  lf_source_type :: string
  lf_source_id :: int
  lf_flesch_reading_ease :: real
  lf_avg_sentence_length :: real
  lf_lexical_diversity :: real
  lf_first_person_ratio :: real
  lf_exclamation_count :: int
  lf_question_count :: int
  lf_analyzed_at :: string

record expedition =
  ex_number :: int
  ex_name :: string
  ex_start_date :: string
  ex_end_date :: string
  ex_crew :: "string list"
  ex_patch_url :: "string option"

record blog_post =
  bp_url :: string
  bp_title :: string
  bp_author :: "string option"
  bp_published_date :: string
  bp_text :: string
  bp_word_count :: int
  bp_expedition_id :: "int option"
  bp_scraped_at :: string

record oral_history_segment =
  oh_astronaut_name :: string
  oh_pdf_url :: string
  oh_interview_date :: "string option"
  oh_segment_index :: int
  oh_speaker :: string
  oh_text :: string
  oh_word_count :: int
  oh_scraped_at :: string

record database =
  expeditions :: "expedition list"
  blog_posts :: "(int \<times> blog_post) list"
  oral_histories :: "(int \<times> oral_history_segment) list"
  sentiment_results :: "(int \<times> sentiment_result) list"
  emotion_results :: "(int \<times> emotion_result) list"
  linguistic_results :: "(int \<times> linguistic_features) list"

text \<open>
  \<open>INTEGER PRIMARY KEY AUTOINCREMENT\<close>: the next id is one more than the largest id of
  the table (no function of the module deletes a row), and 1 for an empty table.
\<close>

definition next_id :: "(int \<times> 'a) list \<Rightarrow> int" where
  "next_id rows = foldr max (map fst rows) 0 + 1"

text \<open>
  \<open>init_db\<close>: every statement of the schema script is \<open>CREATE ... IF NOT EXISTS\<close>, so the
  rows of a database that already has the tables are left as they are. A process that
  starts again opens the same database through \<open>get_connection\<close> and \<open>init_db\<close>.
\<close>

definition init_db :: "database \<Rightarrow> database" where
  "init_db db = db"

text \<open>
  \<open>insert_expeditions\<close>: \<open>INSERT OR IGNORE\<close> skips a row whose primary key is taken; the
  counter is incremented for every expedition of the list.
\<close>

definition insert_expedition :: "database \<Rightarrow> expedition \<Rightarrow> database" where
  "insert_expedition db e =
     (if ex_number e \<in> ex_number ` set (expeditions db) then db
      else db\<lparr>expeditions := expeditions db @ [e]\<rparr>)"

definition insert_expeditions :: "database \<Rightarrow> expedition list \<Rightarrow> database \<times> int" where
  "insert_expeditions db exps = (foldl insert_expedition db exps, int (length exps))"

text \<open>
  \<open>insert_blog_post\<close>: the \<open>UNIQUE\<close> column \<open>url\<close> and the foreign key on
  \<open>expedition_id\<close> (\<open>PRAGMA foreign_keys=ON\<close>) raise \<open>IntegrityError\<close>, which the
  function catches, returning \<open>-1\<close>; otherwise it returns the new row id.
\<close>

definition insert_blog_post :: "database \<Rightarrow> blog_post \<Rightarrow> database \<times> int" where
  "insert_blog_post db post =
     (if bp_url post \<in> (bp_url \<circ> snd) ` set (blog_posts db) \<or>
         (case bp_expedition_id post of
            None \<Rightarrow> False
          | Some n \<Rightarrow> n \<notin> ex_number ` set (expeditions db))
      then (db, -1)
      else (db\<lparr>blog_posts := blog_posts db @ [(next_id (blog_posts db), post)]\<rparr>,
            next_id (blog_posts db)))"

definition insert_oral_history :: "database \<Rightarrow> oral_history_segment \<Rightarrow> database \<times> int" where
  "insert_oral_history db segment =
     (db\<lparr>oral_histories := oral_histories db @ [(next_id (oral_histories db), segment)]\<rparr>,
      next_id (oral_histories db))"

text \<open>
  The three result inserts are \<open>INSERT OR IGNORE\<close>: a row that violates the \<open>UNIQUE\<close>
  tuple or the \<open>CHECK\<close> on \<open>source_type\<close> is skipped without an error. The functions
  return \<open>cursor.lastrowid\<close>, which no caller reads; the model returns the database.
\<close>

definition insert_sentiment :: "database \<Rightarrow> sentiment_result \<Rightarrow> database" where
  "insert_sentiment db result =
     (if \<not> valid_source_type (sr_source_type result) \<or>
         (\<exists>(i, a) \<in> set (sentiment_results db).
            sr_source_type a = sr_source_type result \<and>
            sr_source_id a = sr_source_id result \<and>
            sr_model_name a = sr_model_name result)
      then db
      else db\<lparr>sentiment_results :=
                sentiment_results db @ [(next_id (sentiment_results db), result)]\<rparr>)"

definition insert_emotion :: "database \<Rightarrow> emotion_result \<Rightarrow> database" where
  "insert_emotion db result =
     (if \<not> valid_source_type (er_source_type result) \<or>
         (\<exists>(i, a) \<in> set (emotion_results db).
            er_source_type a = er_source_type result \<and>
            er_source_id a = er_source_id result \<and>
            er_model_name a = er_model_name result)
      then db
      else db\<lparr>emotion_results :=
                emotion_results db @ [(next_id (emotion_results db), result)]\<rparr>)"

definition insert_linguistic :: "database \<Rightarrow> linguistic_features \<Rightarrow> database" where
  "insert_linguistic db features =
     (if \<not> valid_source_type (lf_source_type features) \<or>
         (\<exists>(i, a) \<in> set (linguistic_results db).
            lf_source_type a = lf_source_type features \<and>
            lf_source_id a = lf_source_id features)
      then db
      else db\<lparr>linguistic_results :=
                linguistic_results db @ [(next_id (linguistic_results db), features)]\<rparr>)"

text \<open>
  \<open>get_unanalyzed\<close>. The table names are the ones \<open>run_analysis\<close> passes. A row of the
  result is a row of the source table; the columns the join reads from the analysis table
  are its \<open>source_type\<close>, \<open>source_id\<close> and, where the table has one, \<open>model_name\<close>.
\<close>

datatype source_table = BlogPostsTable | OralHistoriesTable

datatype analysis_table = SentimentResultsTable | EmotionResultsTable | LinguisticFeaturesTable

datatype source_row = BlogRow int blog_post | OralRow int oral_history_segment

fun row_id :: "source_row \<Rightarrow> int" where
  "row_id (BlogRow i p) = i"
| "row_id (OralRow i s) = i"

fun row_text :: "source_row \<Rightarrow> string" where
  "row_text (BlogRow i p) = bp_text p"
| "row_text (OralRow i s) = oh_text s"

fun row_word_count :: "source_row \<Rightarrow> int" where
  "row_word_count (BlogRow i p) = bp_word_count p"
| "row_word_count (OralRow i s) = oh_word_count s"

text \<open>\<open>row["speaker"]\<close>: a row of \<open>blog_posts\<close> has no such column.\<close>

fun row_speaker :: "source_row \<Rightarrow> py_error + string" where
  "row_speaker (BlogRow i p) = Inl KeyError"
| "row_speaker (OralRow i s) = Inr (oh_speaker s)"

definition source_rows :: "database \<Rightarrow> source_table \<Rightarrow> source_row list" where
  "source_rows db t =
     (case t of
        BlogPostsTable \<Rightarrow> map (\<lambda>(i, p). BlogRow i p) (blog_posts db)
      | OralHistoriesTable \<Rightarrow> map (\<lambda>(i, s). OralRow i s) (oral_histories db))"

definition analysis_keys :: "database \<Rightarrow> analysis_table \<Rightarrow> (string \<times> int \<times> string option) list" where
  "analysis_keys db t =
     (case t of
        SentimentResultsTable \<Rightarrow>
          map (\<lambda>(i, a). (sr_source_type a, sr_source_id a, Some (sr_model_name a)))
            (sentiment_results db)
      | EmotionResultsTable \<Rightarrow>
          map (\<lambda>(i, a). (er_source_type a, er_source_id a, Some (er_model_name a)))
            (emotion_results db)
      | LinguisticFeaturesTable \<Rightarrow>
          map (\<lambda>(i, a). (lf_source_type a, lf_source_id a, None)) (linguistic_results db))"

text \<open>
  The left join keeps a source row with \<open>a.id IS NULL\<close> exactly when no row of the
  analysis table satisfies the \<open>ON\<close> condition. \<open>if model_name:\<close> is false for \<open>None\<close>
  and for the empty string. A query that names \<open>a.model_name\<close> on
  \<open>linguistic_features\<close> raises \<open>OperationalError\<close>.
\<close>

definition get_unanalyzed ::
  "database \<Rightarrow> source_table \<Rightarrow> analysis_table \<Rightarrow> string \<Rightarrow> string option
     \<Rightarrow> py_error + source_row list"
where
  "get_unanalyzed db source_tbl analysis_tbl source_type model_name =
     (if model_name \<noteq> None \<and> model_name \<noteq> Some []
      then (if analysis_tbl = LinguisticFeaturesTable then Inl OperationalError
            else Inr (filter (\<lambda>s. \<not> (\<exists>(st, sid, m) \<in> set (analysis_keys db analysis_tbl).
                                   st = source_type \<and> sid = row_id s \<and> m = model_name))
                        (source_rows db source_tbl)))
      else Inr (filter (\<lambda>s. \<not> (\<exists>(st, sid, m) \<in> set (analysis_keys db analysis_tbl).
                                st = source_type \<and> sid = row_id s))
                  (source_rows db source_tbl)))"

text \<open>The functions of the module that change the database, as operations.\<close>

datatype db_op =
    InitDb
  | InsertExpeditions "expedition list"
  | InsertBlogPost blog_post
  | InsertOralHistory oral_history_segment
  | InsertSentiment sentiment_result
  | InsertEmotion emotion_result
  | InsertLinguistic linguistic_features

fun apply_db_op :: "database \<Rightarrow> db_op \<Rightarrow> database" where
  "apply_db_op db InitDb = init_db db"
| "apply_db_op db (InsertExpeditions exps) = fst (insert_expeditions db exps)"
| "apply_db_op db (InsertBlogPost post) = fst (insert_blog_post db post)"
| "apply_db_op db (InsertOralHistory segment) = fst (insert_oral_history db segment)"
| "apply_db_op db (InsertSentiment result) = insert_sentiment db result"
| "apply_db_op db (InsertEmotion result) = insert_emotion db result"
| "apply_db_op db (InsertLinguistic features) = insert_linguistic db features"

text \<open>A result is stored for the tuple \<open>(source_type, source_id, model_name)\<close>.\<close>

definition has_sentiment :: "database \<Rightarrow> string \<Rightarrow> int \<Rightarrow> string \<Rightarrow> bool" where
  "has_sentiment db st sid m =
     (\<exists>(i, a) \<in> set (sentiment_results db).
        sr_source_type a = st \<and> sr_source_id a = sid \<and> sr_model_name a = m)"

definition has_emotion :: "database \<Rightarrow> string \<Rightarrow> int \<Rightarrow> string \<Rightarrow> bool" where
  "has_emotion db st sid m =
     (\<exists>(i, a) \<in> set (emotion_results db).
        er_source_type a = st \<and> er_source_id a = sid \<and> er_model_name a = m)"

text \<open>A database with two blog posts and no results, and a result for the first post.\<close>

definition example_post :: "string \<Rightarrow> blog_post" where
  "example_post url =
     \<lparr>bp_url = url, bp_title = ''Station update'', bp_author = None,
      bp_published_date = ''2021-05-01'', bp_text = ''The crew worked on science today.'',
      bp_word_count = 6, bp_expedition_id = None, bp_scraped_at = ''t0''\<rparr>"

definition example_db :: database where
  "example_db =
     \<lparr>expeditions = [],
      blog_posts = [(1, example_post ''https://example.com/a''),
                    (2, example_post ''https://example.com/b'')],
      oral_histories = [], sentiment_results = [], emotion_results = [],
      linguistic_results = []\<rparr>"

definition example_sentiment :: sentiment_result where
  "example_sentiment =
     \<lparr>sr_source_type = ''blog'', sr_source_id = 1, sr_label = ''neutral'',
      sr_positive_score = 0.2, sr_negative_score = 0.15, sr_neutral_score = 0.65,
      sr_model_name = ''model-X'', sr_analyzed_at = ''t1''\<rparr>"

definition example_emotion :: emotion_result where
  "example_emotion =
     \<lparr>er_source_type = ''blog'', er_source_id = 1, er_anger_score = 0,
      er_disgust_score = 0, er_fear_score = 0, er_joy_score = 0.7, er_neutral_score = 0.2,
      er_sadness_score = 0.1, er_surprise_score = 0, er_dominant_emotion = ''joy'',
      er_model_name = ''model-X'', er_analyzed_at = ''t1''\<rparr>"

section \<open>Linguistic features (src/analysis/linguistic.py)\<close>

text \<open>
  The constructor of \<open>LinguisticFeatures\<close> with the constraints of its fields. The six
  feature values are computed from the text alone; their formulas, which call the
  readability library, are an oracle here: a function from the text to the values, or to
  an exception.
\<close>

definition LinguisticFeatures ::
  "string \<Rightarrow> int \<Rightarrow> real \<Rightarrow> real \<Rightarrow> real \<Rightarrow> real \<Rightarrow> int \<Rightarrow> int \<Rightarrow> string
     \<Rightarrow> py_error + linguistic_features"
where
  "LinguisticFeatures source_type source_id fre asl ld fpr ec qc now =
     (if valid_source_type source_type \<and> 0 \<le> asl \<and> valid_score ld \<and> valid_score fpr \<and>
         0 \<le> ec \<and> 0 \<le> qc
      then Inr \<lparr>lf_source_type = source_type, lf_source_id = source_id,
                lf_flesch_reading_ease = fre, lf_avg_sentence_length = asl,
                lf_lexical_diversity = ld, lf_first_person_ratio = fpr,
                lf_exclamation_count = ec, lf_question_count = qc, lf_analyzed_at = now\<rparr>
      else Inl ValidationError)"

type_synonym linguistic_analyzer =
  "string \<Rightarrow> py_error + (real \<times> real \<times> real \<times> real \<times> int \<times> int)"

definition linguistic_analyze ::
  "linguistic_analyzer \<Rightarrow> string \<Rightarrow> string \<Rightarrow> string \<Rightarrow> int \<Rightarrow> py_error + linguistic_features"
where
  "linguistic_analyze la now text source_type source_id =
     bind_err (la text) (\<lambda>(fre, asl, ld, fpr, ec, qc).
       LinguisticFeatures source_type source_id fre asl ld fpr ec qc now)"

section \<open>Orchestration (src/analysis/runner.py, run\_analysis)\<close>

definition MIN_WORDS_FOR_ANALYSIS :: int where
  "MIN_WORDS_FOR_ANALYSIS = 10"

text \<open>
  One iteration of the loop of \<open>_analyze_rows\<close>. Each of the three blocks is a
  \<open>try ... except Exception\<close>: an exception leaves the database as it was before the block.
\<close>

definition analyze_row ::
  "string \<Rightarrow> analyzer option \<Rightarrow> analyzer option \<Rightarrow> linguistic_analyzer option \<Rightarrow> string
     \<Rightarrow> database \<Rightarrow> source_row \<Rightarrow> database"
where
  "analyze_row source_type sentiment_analyzer emotion_analyzer linguistic_analyzer now conn row =
     (if row_word_count row < MIN_WORDS_FOR_ANALYSIS then conn
      else
        let conn1 =
              (case sentiment_analyzer of
                 None \<Rightarrow> conn
               | Some sa \<Rightarrow>
                   (case row_sentiment sa now (row_text row) source_type (row_id row) of
                      Inl e \<Rightarrow> conn
                    | Inr result \<Rightarrow> insert_sentiment conn result));
            conn2 =
              (case emotion_analyzer of
                 None \<Rightarrow> conn1
               | Some ea \<Rightarrow>
                   (case row_emotion ea now (row_text row) source_type (row_id row) of
                      Inl e \<Rightarrow> conn1
                    | Inr result \<Rightarrow> insert_emotion conn1 result));
            conn3 =
              (case linguistic_analyzer of
                 None \<Rightarrow> conn2
               | Some la \<Rightarrow>
                   (case linguistic_analyze la now (row_text row) source_type (row_id row) of
                      Inl e \<Rightarrow> conn2
                    | Inr features \<Rightarrow> insert_linguistic conn2 features))
        in conn3)"

definition analyze_rows ::
  "source_row list \<Rightarrow> string \<Rightarrow> analyzer option \<Rightarrow> analyzer option
     \<Rightarrow> linguistic_analyzer option \<Rightarrow> string \<Rightarrow> database \<Rightarrow> database"
where
  "analyze_rows rows source_type sentiment_analyzer emotion_analyzer linguistic_analyzer now conn =
     foldl (analyze_row source_type sentiment_analyzer emotion_analyzer linguistic_analyzer now)
       conn rows"

text \<open>
  The \<open>if / elif / else\<close> chain of \<open>run_analysis\<close> that finds the unanalyzed rows of a
  source table; the source has it once for each table.
\<close>

definition find_unanalyzed ::
  "database \<Rightarrow> source_table \<Rightarrow> string \<Rightarrow> analyzer option \<Rightarrow> analyzer option
     \<Rightarrow> linguistic_analyzer option \<Rightarrow> py_error + source_row list"
where
  "find_unanalyzed conn source_tbl source_type sentiment_analyzer emotion_analyzer
       linguistic_analyzer =
     (case sentiment_analyzer of
        Some sa \<Rightarrow>
          get_unanalyzed conn source_tbl SentimentResultsTable source_type (Some (an_model_name sa))
      | None \<Rightarrow>
          (case emotion_analyzer of
             Some ea \<Rightarrow>
               get_unanalyzed conn source_tbl EmotionResultsTable source_type
                 (Some (an_model_name ea))
           | None \<Rightarrow>
               (case linguistic_analyzer of
                  Some la \<Rightarrow> get_unanalyzed conn source_tbl LinguisticFeaturesTable source_type None
                | None \<Rightarrow> Inr [])))"

text \<open>A list comprehension with a condition that may raise.\<close>

fun filter_err :: "('a \<Rightarrow> py_error + bool) \<Rightarrow> 'a list \<Rightarrow> py_error + 'a list" where
  "filter_err p [] = Inr []"
| "filter_err p (x # xs) =
     bind_err (p x) (\<lambda>keep.
       bind_err (filter_err p xs) (\<lambda>ys. Inr (if keep then x # ys else ys)))"

text \<open>\<open>[r for r in oh_rows if r["speaker"] == "astronaut"]\<close>.\<close>

definition astronaut_only :: "source_row list \<Rightarrow> py_error + source_row list" where
  "astronaut_only oh_rows =
     filter_err (\<lambda>r. bind_err (row_speaker r) (\<lambda>s. Inr (s = ''astronaut''))) oh_rows"

text \<open>
  \<open>run_analysis\<close>. The analyzers that the function constructs unless their analysis is
  skipped are the parameters \<open>sa\<close>, \<open>ea\<close> and \<open>la\<close>.
\<close>

definition run_analysis ::
  "database \<Rightarrow> bool \<Rightarrow> bool \<Rightarrow> bool \<Rightarrow> analyzer \<Rightarrow> analyzer \<Rightarrow> linguistic_analyzer \<Rightarrow> string
     \<Rightarrow> py_error + database"
where
  "run_analysis db skip_sentiment skip_emotion skip_linguistic sa ea la now =
     (let conn = init_db db;
          sentiment_analyzer = (if \<not> skip_sentiment then Some sa else None);
          emotion_analyzer = (if \<not> skip_emotion then Some ea else None);
          linguistic_analyzer = (if \<not> skip_linguistic then Some la else None)
      in
      bind_err (find_unanalyzed conn BlogPostsTable ''blog'' sentiment_analyzer emotion_analyzer
                  linguistic_analyzer) (\<lambda>blog_rows.
      let conn1 =
            (if blog_rows \<noteq> []
             then analyze_rows blog_rows ''blog'' sentiment_analyzer emotion_analyzer
                    linguistic_analyzer now conn
             else conn)
      in
      bind_err (find_unanalyzed conn1 OralHistoriesTable ''oral_history'' sentiment_analyzer
                  emotion_analyzer linguistic_analyzer) (\<lambda>oh_rows.
      bind_err (astronaut_only oh_rows) (\<lambda>oh_rows.
      Inr (if oh_rows \<noteq> []
           then analyze_rows oh_rows ''oral_history'' sentiment_analyzer emotion_analyzer
                  linguistic_analyzer now conn1
           else conn1)))))"

text \<open>
  From \<open>db\<close> to \<open>db'\<close> the source tables are unchanged and every stored result is either a
  result of \<open>db\<close> or a result for the source type \<open>st\<close> and a source id in \<open>ids\<close>.
\<close>

definition results_added_for :: "database \<Rightarrow> database \<Rightarrow> string \<Rightarrow> int set \<Rightarrow> bool" where
  "results_added_for db db' st ids =
     (oral_histories db' = oral_histories db \<and> blog_posts db' = blog_posts db \<and>
      (\<forall>(i, a) \<in> set (sentiment_results db').
         (i, a) \<in> set (sentiment_results db) \<or> (sr_source_type a = st \<and> sr_source_id a \<in> ids)) \<and>
      (\<forall>(i, a) \<in> set (emotion_results db').
         (i, a) \<in> set (emotion_results db) \<or> (er_source_type a = st \<and> er_source_id a \<in> ids)) \<and>
      (\<forall>(i, a) \<in> set (linguistic_results db').
         (i, a) \<in> set (linguistic_results db) \<or> (lf_source_type a = st \<and> lf_source_id a \<in> ids)))"

text \<open>
  A database with an interviewer segment and an astronaut segment, both long enough to be
  analyzed, and no results.
\<close>

definition example_segment :: "string \<Rightarrow> string \<Rightarrow> oral_history_segment" where
  "example_segment speaker text =
     \<lparr>oh_astronaut_name = ''Peggy A. Whitson'', oh_pdf_url = ''https://example.com/w.pdf'',
      oh_interview_date = None, oh_segment_index = 0, oh_speaker = speaker, oh_text = text,
      oh_word_count = 12, oh_scraped_at = ''t0''\<rparr>"

definition example_oral_db :: database where
  "example_oral_db =
     \<lparr>expeditions = [], blog_posts = [],
      oral_histories =
        [(1, example_segment ''interviewer'' ''How was it?''),
         (2, example_segment ''astronaut'' ''It was fine.'')],
      sentiment_results = [], emotion_results = [], linguistic_results = []\<rparr>"

definition mock_linguistic :: linguistic_analyzer where
  "mock_linguistic = (\<lambda>t. Inr (60, 12, 0.9, 0.1, 0, 1))"

definition example_oral_result :: database where
  "example_oral_result =
     example_oral_db
       \<lparr>sentiment_results :=
          [(1, \<lparr>sr_source_type = ''oral_history'', sr_source_id = 2, sr_label = ''neutral'',
                 sr_positive_score = 0.20, sr_negative_score = 0.15, sr_neutral_score = 0.65,
                 sr_model_name = ''test-sentiment-model'', sr_analyzed_at = ''t1''\<rparr>)],
        emotion_results :=
          [(1, \<lparr>er_source_type = ''oral_history'', er_source_id = 2, er_anger_score = 0,
                 er_disgust_score = 0, er_fear_score = 0, er_joy_score = 0.7,
                 er_neutral_score = 0.2, er_sadness_score = 0.1, er_surprise_score = 0,
                 er_dominant_emotion = ''joy'', er_model_name = ''test-emotion-model'',
                 er_analyzed_at = ''t1''\<rparr>)],
        linguistic_results :=
          [(1, \<lparr>lf_source_type = ''oral_history'', lf_source_id = 2,
                 lf_flesch_reading_ease = 60, lf_avg_sentence_length = 12,
                 lf_lexical_diversity = 0.9, lf_first_person_ratio = 0.1,
                 lf_exclamation_count = 0, lf_question_count = 1,
                 lf_analyzed_at = ''t1''\<rparr>)]\<rparr>"

section \<open>Checkpoint store (src/scraping/iss\_blog\_scraper.py)\<close>

text \<open>
  The checkpoint is a Python dictionary that \<open>json\<close> writes and reads. A dictionary is the
  list of its items in insertion order; \<open>d[k] = v\<close> replaces the value of a key that is
  present and appends a new key.
\<close>

datatype json =
    JNull
  | JBool bool
  | JInt int
  | JStr string
  | JArr "json list"
  | JObj "(string \<times> json) list"

type_synonym py_dict = "(string \<times> json) list"

definition dict_store :: "py_dict \<Rightarrow> string \<Rightarrow> json \<Rightarrow> py_dict" where
  "dict_store d k v =
     (if k \<in> fst ` set d then map (\<lambda>(k', v'). if k' = k then (k', v) else (k', v')) d
      else d @ [(k, v)])"






section \<open>A model of the JSON text that the checkpoint uses\<close>

text \<open>
  The encoder follows \<open>json.dumps(obj, indent=2)\<close> on dictionaries, lists, strings,
  integers, booleans and \<open>None\<close>: an item per line, two spaces per level, \<open>", "\<close> never
  used, \<open>": "\<close> after a key, and the escapes of \<open>ensure_ascii\<close> for ASCII text.
\<close>

definition digit_char :: "nat \<Rightarrow> char" where
  "digit_char d = char_of (48 + d)"

function show_nat :: "nat \<Rightarrow> string" where
  "show_nat n = (if n < 10 then [digit_char n] else show_nat (n div 10) @ [digit_char (n mod 10)])"
  by pat_completeness auto
termination
  by (relation "measure id") auto

declare show_nat.simps [simp del]

definition show_int :: "int \<Rightarrow> string" where
  "show_int i = (if i < 0 then CHR ''-'' # show_nat (nat (- i)) else show_nat (nat i))"

definition hex_char :: "nat \<Rightarrow> char" where
  "hex_char d = (if d < 10 then char_of (48 + d) else char_of (87 + d))"

definition escape_char :: "char \<Rightarrow> string" where
  "escape_char c =
     (if c = CHR 0x22 then [CHR 0x5C, CHR 0x22]
      else if c = CHR 0x5C then [CHR 0x5C, CHR 0x5C]
      else if c = CHR 0x0A then [CHR 0x5C, CHR ''n'']
      else if c = CHR 0x0D then [CHR 0x5C, CHR ''r'']
      else if c = CHR 0x09 then [CHR 0x5C, CHR ''t'']
      else if c = CHR 0x08 then [CHR 0x5C, CHR ''b'']
      else if c = CHR 0x0C then [CHR 0x5C, CHR ''f'']
      else if (of_char c :: nat) < 32
        then [CHR 0x5C, CHR ''u'', CHR ''0'', CHR ''0'',
              hex_char ((of_char c :: nat) div 16), hex_char ((of_char c :: nat) mod 16)]
      else [c])"

definition quote_string :: "string \<Rightarrow> string" where
  "quote_string s = CHR 0x22 # concat (map escape_char s) @ [CHR 0x22]"

definition newline_indent :: "nat \<Rightarrow> string" where
  "newline_indent level = CHR 0x0A # replicate (2 * level) CHR '' ''"

fun join_with :: "string \<Rightarrow> string list \<Rightarrow> string" where
  "join_with sep [] = []"
| "join_with sep [p] = p"
| "join_with sep (p # q # ps) = p @ sep @ join_with sep (q # ps)"

fun json_encode :: "nat \<Rightarrow> json \<Rightarrow> string"
  and json_encode_items :: "nat \<Rightarrow> json list \<Rightarrow> string list"
  and json_encode_members :: "nat \<Rightarrow> (string \<times> json) list \<Rightarrow> string list"
where
  "json_encode level JNull = ''null''"
| "json_encode level (JBool b) = (if b then ''true'' else ''false'')"
| "json_encode level (JInt i) = show_int i"
| "json_encode level (JStr s) = quote_string s"
| "json_encode level (JArr vs) =
     (if vs = [] then ''[]''
      else ''['' @ newline_indent (Suc level) @
           join_with ('','' @ newline_indent (Suc level)) (json_encode_items (Suc level) vs) @
           newline_indent level @ '']'')"
| "json_encode level (JObj ms) =
     (if ms = [] then ''{}''
      else ''{'' @ newline_indent (Suc level) @
           join_with ('','' @ newline_indent (Suc level)) (json_encode_members (Suc level) ms) @
           newline_indent level @ ''}'')"
| "json_encode_items level [] = []"
| "json_encode_items level (v # vs) = json_encode level v # json_encode_items level vs"
| "json_encode_members level [] = []"
| "json_encode_members level ((k, v) # ms) =
     (quote_string k @ '': '' @ json_encode level v) # json_encode_members level ms"


text \<open>
  The decoder reads the same part of JSON: whitespace, strings with the escapes above,
  integers, the three literals, lists and objects; anything else is a
  \<open>JSONDecodeError\<close>. A key that occurs twice keeps its last value. The first argument
  bounds the depth of the recursion; \<open>json_loads\<close> gives it more than the text can use.
\<close>

definition is_json_ws :: "char \<Rightarrow> bool" where
  "is_json_ws c = (c = CHR '' '' \<or> c = CHR 0x0A \<or> c = CHR 0x0D \<or> c = CHR 0x09)"

definition is_digit :: "char \<Rightarrow> bool" where
  "is_digit c = (48 \<le> (of_char c :: nat) \<and> (of_char c :: nat) \<le> 57)"

definition read_nat :: "string \<Rightarrow> nat" where
  "read_nat ds = foldl (\<lambda>n c. 10 * n + ((of_char c :: nat) - 48)) 0 ds"

definition parse_int :: "string \<Rightarrow> (json \<times> string) option" where
  "parse_int s =
     (let negative = (s \<noteq> [] \<and> hd s = CHR ''-'');
          body = (if negative then tl s else s);
          ds = takeWhile is_digit body;
          rest = dropWhile is_digit body
      in if ds = [] \<or> (rest \<noteq> [] \<and> hd rest \<in> {CHR ''.'', CHR ''e'', CHR ''E''}) then None
         else Some (JInt (if negative then - int (read_nat ds) else int (read_nat ds)), rest))"

definition hex_value :: "char \<Rightarrow> nat option" where
  "hex_value c =
     (if is_digit c then Some ((of_char c :: nat) - 48)
      else if 97 \<le> (of_char c :: nat) \<and> (of_char c :: nat) \<le> 102
        then Some ((of_char c :: nat) - 87)
      else if 65 \<le> (of_char c :: nat) \<and> (of_char c :: nat) \<le> 70
        then Some ((of_char c :: nat) - 55)
      else None)"

definition unescape :: "char \<Rightarrow> char option" where
  "unescape e =
     (if e = CHR 0x22 then Some (CHR 0x22)
      else if e = CHR 0x5C then Some (CHR 0x5C)
      else if e = CHR ''/'' then Some (CHR ''/'')
      else if e = CHR ''n'' then Some (CHR 0x0A)
      else if e = CHR ''r'' then Some (CHR 0x0D)
      else if e = CHR ''t'' then Some (CHR 0x09)
      else if e = CHR ''b'' then Some (CHR 0x08)
      else if e = CHR ''f'' then Some (CHR 0x0C)
      else None)"

fun parse_string :: "string \<Rightarrow> (string \<times> string) option" where
  "parse_string [] = None"
| "parse_string [c] = (if c = CHR 0x22 then Some ([], []) else None)"
| "parse_string (c # e # rest) =
     (if c = CHR 0x22 then Some ([], e # rest)
      else if c = CHR 0x5C then
        (if e = CHR ''u'' then
           (case rest of
              a # b # h # l # rest' \<Rightarrow>
                (case (hex_value h, hex_value l) of
                   (Some x, Some y) \<Rightarrow>
                     (if a = CHR ''0'' \<and> b = CHR ''0'' \<and> x < 8
                      then map_option (\<lambda>(s, r). (char_of (16 * x + y) # s, r))
                             (parse_string rest')
                      else None)
                 | _ \<Rightarrow> None)
            | _ \<Rightarrow> None)
         else (case unescape e of
                 None \<Rightarrow> None
               | Some ch \<Rightarrow> map_option (\<lambda>(s, r). (ch # s, r)) (parse_string rest)))
      else if (of_char c :: nat) < 32 then None
      else map_option (\<lambda>(s, r). (c # s, r)) (parse_string (e # rest)))"

fun parse_value :: "nat \<Rightarrow> string \<Rightarrow> (json \<times> string) option"
  and parse_elements :: "nat \<Rightarrow> string \<Rightarrow> (json list \<times> string) option"
  and parse_members :: "nat \<Rightarrow> string \<Rightarrow> ((string \<times> json) list \<times> string) option"
where
  "parse_value 0 s = None"
| "parse_value (Suc n) s =
     (case dropWhile is_json_ws s of
        [] \<Rightarrow> None
      | c # r \<Rightarrow>
          if c = CHR 0x22 then map_option (\<lambda>(t, r'). (JStr t, r')) (parse_string r)
          else if c = CHR ''['' then
            (case dropWhile is_json_ws r of
               [] \<Rightarrow> None
             | c' # r' \<Rightarrow>
                 if c' = CHR '']'' then Some (JArr [], r')
                 else map_option (\<lambda>(vs, r''). (JArr vs, r'')) (parse_elements n r))
          else if c = CHR ''{'' then
            (case dropWhile is_json_ws r of
               [] \<Rightarrow> None
             | c' # r' \<Rightarrow>
                 if c' = CHR ''}'' then Some (JObj [], r')
                 else map_option
                        (\<lambda>(ms, r''). (JObj (foldl (\<lambda>d (k, v). dict_store d k v) [] ms), r''))
                        (parse_members n r))
          else if take 4 (c # r) = ''null'' then Some (JNull, drop 4 (c # r))
          else if take 4 (c # r) = ''true'' then Some (JBool True, drop 4 (c # r))
          else if take 5 (c # r) = ''false'' then Some (JBool False, drop 5 (c # r))
          else parse_int (c # r))"
| "parse_elements 0 s = None"
| "parse_elements (Suc n) s =
     (case parse_value n s of
        None \<Rightarrow> None
      | Some (v, r) \<Rightarrow>
          (case dropWhile is_json_ws r of
             [] \<Rightarrow> None
           | c # r' \<Rightarrow>
               if c = CHR '','' then map_option (\<lambda>(vs, r''). (v # vs, r'')) (parse_elements n r')
               else if c = CHR '']'' then Some ([v], r')
               else None))"
| "parse_members 0 s = None"
| "parse_members (Suc n) s =
     (case dropWhile is_json_ws s of
        [] \<Rightarrow> None
      | q # r \<Rightarrow>
          if q \<noteq> CHR 0x22 then None
          else (case parse_string r of
                  None \<Rightarrow> None
                | Some (k, r1) \<Rightarrow>
                    (case dropWhile is_json_ws r1 of
                       [] \<Rightarrow> None
                     | colon # r2 \<Rightarrow>
                         if colon \<noteq> CHR '':'' then None
                         else (case parse_value n r2 of
                                 None \<Rightarrow> None
                               | Some (v, r3) \<Rightarrow>
                                   (case dropWhile is_json_ws r3 of
                                      [] \<Rightarrow> None
                                    | c # r4 \<Rightarrow>
                                        if c = CHR '','' then
                                          map_option (\<lambda>(ms, r5). ((k, v) # ms, r5))
                                            (parse_members n r4)
                                        else if c = CHR ''}'' then Some ([(k, v)], r4)
                                        else None)))))"




section \<open>Properties of the chunker\<close>

lemma chunk_windows_unfold:
  "0 < step \<Longrightarrow> start < n \<Longrightarrow>
   chunk_windows n W step start =
     (start, min (start + W) n) #
       (if start + W \<ge> n then [] else chunk_windows n W step (start + step))"
  by (subst chunk_windows.simps) (auto simp: Let_def min_def)

lemma chunk_windows_hd:
  "0 < step \<Longrightarrow> start < n \<Longrightarrow>
   chunk_windows n W step start \<noteq> [] \<and> fst (hd (chunk_windows n W step start)) = start"
  by (simp add: chunk_windows_unfold)

lemma chunk_windows_last:
  "0 < step \<Longrightarrow> step \<le> W \<Longrightarrow> start < n \<Longrightarrow>
   snd (last (chunk_windows n W step start)) = n"
proof (induction n W step start rule: chunk_windows.induct)
  case (1 n W step start)
  show ?case
  proof (cases "start + W \<ge> n")
    case True
    with "1.prems" show ?thesis by (simp add: chunk_windows_unfold)
  next
    case False
    with "1.prems" have lt: "start + step < n" by simp
    have ne: "chunk_windows n W step (start + step) \<noteq> []"
      using chunk_windows_hd [of step "start + step" n W] "1.prems" lt by simp
    have "snd (last (chunk_windows n W step (start + step))) = n"
      using "1.IH" [of "min (start + W) n"] "1.prems" False lt by (simp add: min_def)
    with False ne "1.prems" show ?thesis by (simp add: chunk_windows_unfold)
  qed
qed

lemma chunk_windows_bounds:
  "0 < step \<Longrightarrow> 0 < W \<Longrightarrow> 0 \<le> start \<Longrightarrow>
   (s, e) \<in> set (chunk_windows n W step start) \<Longrightarrow> start \<le> s \<and> s < e \<and> e \<le> n"
proof (induction n W step start rule: chunk_windows.induct)
  case (1 n W step start)
  show ?case
  proof (cases "start < n")
    case False
    with "1.prems" show ?thesis by (simp add: chunk_windows.simps)
  next
    case lt: True
    show ?thesis
    proof (cases "start + W \<ge> n")
      case True
      with "1.prems" lt show ?thesis by (auto simp: chunk_windows_unfold)
    next
      case False
      from "1.prems" lt False
      consider "(s, e) = (start, start + W)" | "(s, e) \<in> set (chunk_windows n W step (start + step))"
        by (auto simp: chunk_windows_unfold min_def)
      then show ?thesis
      proof cases
        case 1
        with False "1.prems" show ?thesis by auto
      next
        case 2
        have "start + step \<le> s \<and> s < e \<and> e \<le> n"
          using "1.IH" [of "min (start + W) n"] "1.prems" False lt 2 by (simp add: min_def)
        with "1.prems" show ?thesis by simp
      qed
    qed
  qed
qed

lemma chunk_windows_adjacent:
  "0 < step \<Longrightarrow> step \<le> W \<Longrightarrow> start < n \<Longrightarrow>
   Suc k < length (chunk_windows n W step start) \<Longrightarrow>
   fst (chunk_windows n W step start ! k) + W = snd (chunk_windows n W step start ! k) \<and>
   snd (chunk_windows n W step start ! k) < n \<and>
   fst (chunk_windows n W step start ! Suc k) = fst (chunk_windows n W step start ! k) + step \<and>
   snd (chunk_windows n W step start ! k) < snd (chunk_windows n W step start ! Suc k)"
proof (induction n W step start arbitrary: k rule: chunk_windows.induct)
  case (1 n W step start)
  let ?rest = "chunk_windows n W step (start + step)"
  have far: "\<not> start + W \<ge> n"
    using "1.prems" by (auto simp: chunk_windows_unfold split: if_splits)
  then have lt: "start + step < n" using "1.prems" by simp
  have unf: "chunk_windows n W step start = (start, start + W) # ?rest"
    using "1.prems" far by (simp add: chunk_windows_unfold min_def)
  have hd_rest: "?rest \<noteq> [] \<and> fst (hd ?rest) = start + step"
    using chunk_windows_hd [of step "start + step" n W] "1.prems" lt by simp
  show ?case
  proof (cases k)
    case 0
    have r0: "?rest ! 0 = hd ?rest" using hd_rest by (simp add: hd_conv_nth)
    have "snd (hd ?rest) = min (start + step + W) n"
      using "1.prems" lt by (simp add: chunk_windows_unfold)
    with 0 unf r0 hd_rest far "1.prems" show ?thesis by (auto simp: min_def)
  next
    case (Suc j)
    have "Suc j < length ?rest" using "1.prems"(4) unf Suc by simp
    then have "fst (?rest ! j) + W = snd (?rest ! j) \<and> snd (?rest ! j) < n \<and>
        fst (?rest ! Suc j) = fst (?rest ! j) + step \<and> snd (?rest ! j) < snd (?rest ! Suc j)"
      using "1.IH" [of "min (start + W) n" j] "1.prems" far lt by (simp add: min_def)
    with Suc unf show ?thesis by simp
  qed
qed

lemma chunk_windows_cover:
  "0 < step \<Longrightarrow> step \<le> W \<Longrightarrow> start \<le> i \<Longrightarrow> i < n \<Longrightarrow>
   \<exists>(s, e) \<in> set (chunk_windows n W step start). s \<le> i \<and> i < e"
proof (induction n W step start rule: chunk_windows.induct)
  case (1 n W step start)
  have lt: "start < n" using "1.prems" by simp
  show ?case
  proof (cases "i < min (start + W) n")
    case True
    with "1.prems" lt show ?thesis by (auto simp: chunk_windows_unfold)
  next
    case False
    with "1.prems" have far: "\<not> start + W \<ge> n" and ige: "start + step \<le> i"
      by (auto simp: min_def split: if_splits)
    have "\<exists>(s, e) \<in> set (chunk_windows n W step (start + step)). s \<le> i \<and> i < e"
      using "1.IH" [of "min (start + W) n"] "1.prems" far lt ige by (simp add: min_def)
    with "1.prems" lt far show ?thesis by (auto simp: chunk_windows_unfold)
  qed
qed

lemma chunk_windows_length:
  "0 < step \<Longrightarrow> step \<le> W \<Longrightarrow> start < n \<Longrightarrow>
   int (length (chunk_windows n W step start)) = max 0 (- ((- (n - start - W)) div step)) + 1"
proof (induction n W step start rule: chunk_windows.induct)
  case (1 n W step start)
  show ?case
  proof (cases "start + W \<ge> n")
    case True
    then have "n - start - W \<le> 0" by simp
    then have "0 \<le> (- (n - start - W)) div step"
      using "1.prems" by (simp add: pos_imp_zdiv_nonneg_iff)
    with True "1.prems" show ?thesis by (simp add: chunk_windows_unfold)
  next
    case False
    have unf: "chunk_windows n W step start = (start, start + W) # chunk_windows n W step (start + step)"
      using "1.prems" False by (simp add: chunk_windows_unfold min_def)
    have lt: "start + step < n" using "1.prems" False by simp
    have ih: "int (length (chunk_windows n W step (start + step))) =
        max 0 (- ((- (n - (start + step) - W)) div step)) + 1"
      using "1.IH" [of "min (start + W) n"] "1.prems" False lt by (simp add: min_def)
    define a where "a = n - start - W"
    have apos: "0 < a" using False by (simp add: a_def)
    have shift: "(- (a - step)) div step = (- a) div step + 1"
    proof -
      have "- (a - step) = - a + 1 * step" by simp
      then show ?thesis using "1.prems"(1) by (metis div_mult_self1 less_irrefl add.commute)
    qed
    have neg: "(- a) div step < 0"
      using apos "1.prems"(1) by (simp add: neg_imp_zdiv_neg_iff div_neg_pos_less0)
    have "n - (start + step) - W = a - step" by (simp add: a_def)
    with ih shift have "int (length (chunk_windows n W step (start + step))) =
        max 0 (- ((- a) div step) - 1) + 1" by simp
    with neg unf show ?thesis by (simp add: a_def [symmetric] max_def)
  qed
qed

lemma py_slice_window:
  "0 \<le> s \<Longrightarrow> s \<le> e \<Longrightarrow> e \<le> int (length xs) \<Longrightarrow>
   py_slice xs s e = take (nat (e - s)) (drop (nat s) xs)"
  by (simp add: py_slice_def py_slice_bound_def Let_def min_def nat_diff_distrib)

lemma chunk_text_windows:
  assumes "0 \<le> ov" "ov < W" "W < int (length (encode doc))"
  shows "chunk_text encode decode doc W ov =
    Inr (map (\<lambda>(s, e). decode (take (nat (e - s)) (drop (nat s) (encode doc))))
          (chunk_windows (int (length (encode doc))) W (W - ov) 0))"
proof -
  let ?n = "int (length (encode doc))"
  let ?ws = "chunk_windows ?n W (W - ov) 0"
  have "map (\<lambda>(s, e). decode (py_slice (encode doc) s e)) ?ws =
        map (\<lambda>(s, e). decode (take (nat (e - s)) (drop (nat s) (encode doc)))) ?ws"
  proof (rule map_cong [OF refl])
    fix w assume w: "w \<in> set ?ws"
    obtain s e where se: "w = (s, e)" by (cases w)
    have "0 \<le> s \<and> s < e \<and> e \<le> ?n"
      using chunk_windows_bounds [of "W - ov" W 0 s e ?n] assms w se by simp
    then show "(case w of (s, e) \<Rightarrow> decode (py_slice (encode doc) s e)) =
        (case w of (s, e) \<Rightarrow> decode (take (nat (e - s)) (drop (nat s) (encode doc))))"
      using se by (simp add: py_slice_window)
  qed
  with assms show ?thesis by (simp add: chunk_text_def Let_def)
qed

text \<open>
  Claim C3. Let \<open>N\<close> be the number of tokens of the text, \<open>W\<close> the window size and
  \<open>O\<close> the overlap. If \<open>N \<le> W\<close>, \<open>chunk_text\<close> returns the one-element list holding the
  text unchanged. If \<open>0 \<le> O < W < N\<close> (the overlap is a number of tokens), the chunks are the
  decoded slices of the windows \<open>ws\<close> visited by the loop; the first window starts at
  \<open>0\<close>, the last one ends at \<open>N\<close>, every window is a non-empty range inside
  \<open>[0, N)\<close>, every token position lies in some window (no gap), and each window starts
  strictly after its predecessor, inside it, ends strictly after it, and shares exactly
  \<open>O\<close> positions with it (no duplicate window).
\<close>

theorem chunk_text_coverage:
  fixes encode :: "string \<Rightarrow> 't list" and decode :: "'t list \<Rightarrow> string"
  shows
  "(int (length (encode doc)) \<le> W \<longrightarrow> chunk_text encode decode doc W ov = Inr [doc]) \<and>
   (0 \<le> ov \<and> ov < W \<and> W < int (length (encode doc)) \<longrightarrow>
      (let ws = chunk_windows (int (length (encode doc))) W (W - ov) 0 in
         chunk_text encode decode doc W ov =
           Inr (map (\<lambda>(s, e). decode (take (nat (e - s)) (drop (nat s) (encode doc)))) ws) \<and>
         ws \<noteq> [] \<and> fst (hd ws) = 0 \<and> snd (last ws) = int (length (encode doc)) \<and>
         (\<forall>(s, e) \<in> set ws. 0 \<le> s \<and> s < e \<and> e \<le> int (length (encode doc))) \<and>
         (\<forall>i. 0 \<le> i \<and> i < int (length (encode doc)) \<longrightarrow> (\<exists>(s, e) \<in> set ws. s \<le> i \<and> i < e)) \<and>
         (\<forall>k. Suc k < length ws \<longrightarrow>
            fst (ws ! k) < fst (ws ! Suc k) \<and> fst (ws ! Suc k) \<le> snd (ws ! k) \<and>
            snd (ws ! k) < snd (ws ! Suc k) \<and>
            snd (ws ! k) - fst (ws ! Suc k) = ov)))"
proof (intro conjI impI)
  assume "int (length (encode doc)) \<le> W"
  then show "chunk_text encode decode doc W ov = Inr [doc]"
    by (simp add: chunk_text_def Let_def)
next
  assume h: "0 \<le> ov \<and> ov < W \<and> W < int (length (encode doc))"
  let ?ws = "chunk_windows (int (length (encode doc))) W (W - ov) 0"
  have step: "0 < W - ov" "W - ov \<le> W" "0 < W" "0 < int (length (encode doc))" using h by linarith+
  have a: "chunk_text encode decode doc W ov =
           Inr (map (\<lambda>(s, e). decode (take (nat (e - s)) (drop (nat s) (encode doc)))) ?ws)"
    using chunk_text_windows [of ov W encode doc decode] h by simp
  have b: "?ws \<noteq> [] \<and> fst (hd ?ws) = 0"
    using chunk_windows_hd [OF step(1) step(4)] by simp
  have c: "snd (last ?ws) = int (length (encode doc))"
    using chunk_windows_last [OF step(1) step(2) step(4)] .
  have d: "\<forall>(s, e) \<in> set ?ws. 0 \<le> s \<and> s < e \<and> e \<le> int (length (encode doc))"
    using chunk_windows_bounds [OF step(1) step(3)] by auto
  have e: "\<forall>i. 0 \<le> i \<and> i < int (length (encode doc)) \<longrightarrow> (\<exists>(s, e) \<in> set ?ws. s \<le> i \<and> i < e)"
    using chunk_windows_cover [OF step(1) step(2)] by blast
  have f: "\<forall>k. Suc k < length ?ws \<longrightarrow>
            fst (?ws ! k) < fst (?ws ! Suc k) \<and> fst (?ws ! Suc k) \<le> snd (?ws ! k) \<and>
            snd (?ws ! k) < snd (?ws ! Suc k) \<and>
            snd (?ws ! k) - fst (?ws ! Suc k) = ov"
  proof (intro allI impI)
    fix k assume k: "Suc k < length ?ws"
    from chunk_windows_adjacent [OF step(1) step(2) step(4) k] h
    show "fst (?ws ! k) < fst (?ws ! Suc k) \<and> fst (?ws ! Suc k) \<le> snd (?ws ! k) \<and>
            snd (?ws ! k) < snd (?ws ! Suc k) \<and>
            snd (?ws ! k) - fst (?ws ! Suc k) = ov" by simp
  qed
  from a b c d e f
  show "let ws = chunk_windows (int (length (encode doc))) W (W - ov) 0 in
         chunk_text encode decode doc W ov =
           Inr (map (\<lambda>(s, e). decode (take (nat (e - s)) (drop (nat s) (encode doc)))) ws) \<and>
         ws \<noteq> [] \<and> fst (hd ws) = 0 \<and> snd (last ws) = int (length (encode doc)) \<and>
         (\<forall>(s, e) \<in> set ws. 0 \<le> s \<and> s < e \<and> e \<le> int (length (encode doc))) \<and>
         (\<forall>i. 0 \<le> i \<and> i < int (length (encode doc)) \<longrightarrow> (\<exists>(s, e) \<in> set ws. s \<le> i \<and> i < e)) \<and>
         (\<forall>k. Suc k < length ws \<longrightarrow>
            fst (ws ! k) < fst (ws ! Suc k) \<and> fst (ws ! Suc k) \<le> snd (ws ! k) \<and>
            snd (ws ! k) < snd (ws ! Suc k) \<and>
            snd (ws ! k) - fst (ws ! Suc k) = ov)"
    unfolding Let_def by blast
qed

theorem chunk_text_coverage_witness:
  "int (length ''abc'') \<le> 4 \<and>
   chunk_text (\<lambda>s. s) (\<lambda>s. s) ''abc'' 4 1 = Inr [''abc''] \<and>
   (0::int) \<le> 1 \<and> (1::int) < 4 \<and> 4 < int (length ''abcdefghij'') \<and>
   chunk_windows 10 4 (4 - 1) 0 = [(0, 4), (3, 7), (6, 10)] \<and>
   chunk_text (\<lambda>s. s) (\<lambda>s. s) ''abcdefghij'' 4 1 = Inr [''abcd'', ''defg'', ''ghij'']"
proof -
  have ws: "chunk_windows 10 4 3 0 = [(0, 4), (3, 7), (6, 10)]"
    by (simp add: chunk_windows.simps)
  have a: "chunk_text (\<lambda>s. s) (\<lambda>s. s) ''abc'' 4 1 = Inr [''abc'']"
    using chunk_text_coverage [where encode = "\<lambda>s. s" and decode = "\<lambda>s. s"
        and doc = "''abc''" and W = 4 and ov = 1]
    by simp
  have b: "chunk_text (\<lambda>s. s) (\<lambda>s. s) ''abcdefghij'' 4 1 = Inr [''abcd'', ''defg'', ''ghij'']"
    using chunk_text_coverage [where encode = "\<lambda>s. s" and decode = "\<lambda>s. s"
        and doc = "''abcdefghij''" and W = 4 and ov = 1] ws
    by (simp add: Let_def)
  from ws a b show ?thesis by simp
qed

text \<open>
  Claim C4. For \<open>0 \<le> O < W < N\<close>, \<open>chunk_text\<close> returns exactly
  \<open>\<lceil>(N - W) / (W - O)\<rceil> + 1\<close> chunks; the last chunk is the decoded tail of the
  token sequence from the last window's start (the window is clipped to \<open>N\<close>), and no
  earlier window reaches \<open>N\<close>: the loop stops at the first window that does.
\<close>

theorem chunk_text_count:
  fixes encode :: "string \<Rightarrow> 't list" and decode :: "'t list \<Rightarrow> string"
  assumes "0 \<le> ov" "ov < W" "W < int (length (encode doc))"
  shows "\<exists>chunks. chunk_text encode decode doc W ov = Inr chunks \<and>
      int (length chunks) =
        \<lceil>real_of_int (int (length (encode doc)) - W) / real_of_int (W - ov)\<rceil> + 1 \<and>
      last chunks = decode (drop (nat (fst (last (chunk_windows (int (length (encode doc))) W (W - ov) 0)))) (encode doc)) \<and>
      snd (last (chunk_windows (int (length (encode doc))) W (W - ov) 0)) = int (length (encode doc)) \<and>
      (\<forall>k. Suc k < length (chunk_windows (int (length (encode doc))) W (W - ov) 0) \<longrightarrow>
           snd (chunk_windows (int (length (encode doc))) W (W - ov) 0 ! k) < int (length (encode doc)))"
proof -
  let ?n = "int (length (encode doc))"
  let ?ws = "chunk_windows ?n W (W - ov) 0"
  let ?f = "\<lambda>(s, e). decode (take (nat (e - s)) (drop (nat s) (encode doc)))"
  have step: "0 < W - ov" "W - ov \<le> W" "0 < W" "0 < ?n" using assms by linarith+
  have a: "chunk_text encode decode doc W ov = Inr (map ?f ?ws)"
    using chunk_text_windows [of ov W encode doc decode] assms by simp
  have ne: "?ws \<noteq> []" using chunk_windows_hd [OF step(1) step(4)] by simp
  have lst: "snd (last ?ws) = ?n" using chunk_windows_last [OF step(1) step(2) step(4)] .
  have len: "int (length ?ws) = max 0 (- ((- (?n - W)) div (W - ov))) + 1"
    using chunk_windows_length [OF step(1) step(2) step(4)] by simp
  have "0 \<le> - ((- (?n - W)) div (W - ov))"
    using assms step(1) by (simp add: neg_imp_zdiv_neg_iff div_neg_pos_less0 less_imp_le)
  with len have "int (length ?ws) = - ((- (?n - W)) div (W - ov)) + 1"
    by (simp only: max_absorb2)
  also have "- ((- (?n - W)) div (W - ov)) =
      \<lceil>real_of_int (?n - W) / real_of_int (W - ov)\<rceil>"
    by (simp only: ceiling_divide_eq_div)
  finally have len': "int (length (map ?f ?ws)) =
      \<lceil>real_of_int (?n - W) / real_of_int (W - ov)\<rceil> + 1"
    by (simp only: length_map)
  obtain s e where se: "last ?ws = (s, e)" by (cases "last ?ws")
  have "(s, e) \<in> set ?ws" using ne se last_in_set by metis
  then have bnd: "0 \<le> s \<and> s < e \<and> e \<le> ?n" using chunk_windows_bounds [OF step(1) step(3)] by auto
  have "e = ?n" using lst se by simp
  then have "?f (last ?ws) = decode (drop (nat s) (encode doc))" using se bnd by simp
  then have lastc: "last (map ?f ?ws) = decode (drop (nat (fst (last ?ws))) (encode doc))"
    using ne se by (simp add: last_map)
  have early: "\<forall>k. Suc k < length ?ws \<longrightarrow> snd (?ws ! k) < ?n"
    using chunk_windows_adjacent [OF step(1) step(2) step(4)] by blast
  from a len' lastc lst early show ?thesis by blast
qed

theorem chunk_text_count_witness:
  "(0::int) \<le> 1 \<and> (1::int) < 4 \<and> 4 < int (length ''abcdefghij'') \<and>
   (\<exists>chunks. chunk_text (\<lambda>s. s) (\<lambda>s. s) ''abcdefghij'' 4 1 = Inr chunks \<and>
      int (length chunks) = \<lceil>real_of_int (10 - 4) / real_of_int (4 - 1)\<rceil> + 1 \<and>
      int (length chunks) = 3)"
proof -
  have h: "(0::int) \<le> 1" "(1::int) < 4" "4 < int (length ((\<lambda>s. s) ''abcdefghij''))"
    by simp_all
  from chunk_text_count [where encode = "\<lambda>s. s" and decode = "\<lambda>s. s", OF h]
  obtain chunks where c: "chunk_text (\<lambda>s. s) (\<lambda>s. s) ''abcdefghij'' 4 1 = Inr chunks"
    and l: "int (length chunks) = \<lceil>real_of_int (int (length ''abcdefghij'') - 4) / real_of_int (4 - 1)\<rceil> + 1"
    by blast
  have "\<lceil>real_of_int (int (length ''abcdefghij'') - 4) / real_of_int (4 - 1)\<rceil> = 2"
    by simp
  with c l show ?thesis by simp
qed

section \<open>Properties of the aggregator\<close>






lemma py_sum_div_mean:
  "xs \<noteq> [] \<Longrightarrow> py_sum_div (map f xs) (length xs) = Inr (mean (map f xs))"
  by (simp add: py_sum_div_def mean_def)


lemma emotion_means_map_err:
  "results \<noteq> [] \<Longrightarrow>
   map_err (\<lambda>(e, field). bind_err (py_sum_div (map field results) (length results)) (\<lambda>m. Inr (e, m)))
     emotion_fields =
   Inr [(''anger'', mean (map er_anger_score results)),
        (''disgust'', mean (map er_disgust_score results)),
        (''fear'', mean (map er_fear_score results)),
        (''joy'', mean (map er_joy_score results)),
        (''neutral'', mean (map er_neutral_score results)),
        (''sadness'', mean (map er_sadness_score results)),
        (''surprise'', mean (map er_surprise_score results))]"
  by (simp add: emotion_fields_def py_sum_div_mean)


lemma dict_set_keys: "map fst (dict_set items k v) = map fst items"
  by (induction items) (auto simp: dict_set_def)

lemma foldl_keys:
  assumes "\<And>acc x. map fst (f acc x) = map fst acc"
  shows "map fst (foldl f init xs) = map fst init"
  using assms by (induction xs arbitrary: init) auto

lemma sentiment_scores_keys:
  "map fst (sentiment_scores results) = [''positive'', ''negative'', ''neutral'']"
  unfolding sentiment_scores_def
  by (subst foldl_keys) (auto simp: dict_set_keys Let_def split: option.splits)

lemma emotion_scores_keys:
  "map fst (emotion_scores results) = EMOTION_LABELS"
  unfolding emotion_scores_def
  by (subst foldl_keys) (auto simp: dict_set_keys o_def)

lemma sentiment_scores_shape:
  "\<exists>a b c. sentiment_scores results = [(''positive'', a), (''negative'', b), (''neutral'', c)]"
  using sentiment_scores_keys [of results] by (auto simp: map_eq_Cons_conv)

lemma emotion_scores_shape:
  "\<exists>a b c d e f g. emotion_scores results =
     [(''anger'', a), (''disgust'', b), (''fear'', c), (''joy'', d), (''neutral'', e),
      (''sadness'', f), (''surprise'', g)]"
  using emotion_scores_keys [of results] by (auto simp: map_eq_Cons_conv EMOTION_LABELS_def)

lemma sentiment_analyze_text_result:
  assumes "sentiment_analyze_text sa now c st sid = Inr r"
  shows "valid_sentiment r \<and> sr_source_type r = st \<and> sr_source_id r = sid \<and>
     sr_model_name r = an_model_name sa \<and>
     py_max_key [(''positive'', sr_positive_score r), (''negative'', sr_negative_score r),
                 (''neutral'', sr_neutral_score r)] = Inr (sr_label r)"
proof -
  obtain results where p: "an_pipe sa c = Inr results"
    using assms by (cases "an_pipe sa c") (auto simp: sentiment_analyze_text_def)
  obtain x y z where sh: "sentiment_scores results = [(''positive'', x), (''negative'', y), (''neutral'', z)]"
    using sentiment_scores_shape by blast
  obtain k where k: "py_max_key [(''positive'', x), (''negative'', y), (''neutral'', z)] = Inr k"
    by (auto simp: py_max_key_def)
  from assms p sh k have "SentimentResult st sid k x y z (an_model_name sa) now = Inr r"
    by (simp add: sentiment_analyze_text_def Let_def dict_get_def)
  with k show ?thesis
    by (auto simp: SentimentResult_def valid_sentiment_def split: if_splits)
qed

lemma emotion_analyze_text_result:
  assumes "emotion_analyze_text ea now c st sid = Inr r"
  shows "valid_emotion r \<and> er_source_type r = st \<and> er_source_id r = sid \<and>
     er_model_name r = an_model_name ea \<and>
     py_max_key [(''anger'', er_anger_score r), (''disgust'', er_disgust_score r),
        (''fear'', er_fear_score r), (''joy'', er_joy_score r),
        (''neutral'', er_neutral_score r), (''sadness'', er_sadness_score r),
        (''surprise'', er_surprise_score r)] = Inr (er_dominant_emotion r)"
proof -
  obtain results where p: "an_pipe ea c = Inr results"
    using assms by (cases "an_pipe ea c") (auto simp: emotion_analyze_text_def)
  obtain a b c' d e f g where sh: "emotion_scores results =
     [(''anger'', a), (''disgust'', b), (''fear'', c'), (''joy'', d), (''neutral'', e),
      (''sadness'', f), (''surprise'', g)]"
    using emotion_scores_shape by blast
  obtain k where k: "py_max_key [(''anger'', a), (''disgust'', b), (''fear'', c'), (''joy'', d),
      (''neutral'', e), (''sadness'', f), (''surprise'', g)] = Inr k"
    by (auto simp: py_max_key_def)
  from assms p sh k have "EmotionResult st sid a b c' d e f g k (an_model_name ea) now = Inr r"
    by (simp add: emotion_analyze_text_def Let_def dict_get_def)
  with k show ?thesis
    by (auto simp: EmotionResult_def valid_emotion_def split: if_splits)
qed

lemma aggregate_sentiment_single:
  assumes v: "valid_sentiment r" and st: "valid_source_type st"
    and l: "py_max_key [(''positive'', sr_positive_score r), (''negative'', sr_negative_score r),
                 (''neutral'', sr_neutral_score r)] = Inr (sr_label r)"
  shows "aggregate_sentiment [r] st sid m now' =
     Inr (r\<lparr>sr_source_type := st, sr_source_id := sid, sr_model_name := m, sr_analyzed_at := now'\<rparr>)"
  using assms
  by (simp add: aggregate_sentiment_def Let_def py_sum_div_def SentimentResult_def
      valid_sentiment_def)

lemma aggregate_emotions_single:
  assumes v: "valid_emotion r" and st: "valid_source_type st"
    and l: "py_max_key [(''anger'', er_anger_score r), (''disgust'', er_disgust_score r),
        (''fear'', er_fear_score r), (''joy'', er_joy_score r),
        (''neutral'', er_neutral_score r), (''sadness'', er_sadness_score r),
        (''surprise'', er_surprise_score r)] = Inr (er_dominant_emotion r)"
  shows "aggregate_emotions [r] st sid m now' =
     Inr (r\<lparr>er_source_type := st, er_source_id := sid, er_model_name := m, er_analyzed_at := now'\<rparr>)"
  using assms
  by (simp add: aggregate_emotions_def Let_def py_sum_div_def EmotionResult_def
      valid_emotion_def emotion_fields_def dict_get_def)



lemma aggregate_sentiment_not_zero_division:
  "results \<noteq> [] \<Longrightarrow> aggregate_sentiment results st sid m now \<noteq> Inl ZeroDivisionError"
  by (auto simp: aggregate_sentiment_def Let_def py_sum_div_def py_max_key_def
      SentimentResult_def)

lemma aggregate_emotions_not_zero_division:
  "results \<noteq> [] \<Longrightarrow> aggregate_emotions results st sid m now \<noteq> Inl ZeroDivisionError"
  by (auto simp: aggregate_emotions_def Let_def emotion_means_map_err py_max_key_def
      dict_get_def EmotionResult_def)

text \<open>
  Claim C9. On the empty list both aggregation functions reach the division by
  \<open>len(results) = 0\<close> and raise \<open>ZeroDivisionError\<close>; nothing guards it. On every
  non-empty list each division by the length is defined and yields the mean, and neither
  function raises \<open>ZeroDivisionError\<close>.
\<close>

theorem aggregate_requires_nonempty:
  "aggregate_sentiment [] st sid m now = Inl ZeroDivisionError \<and>
   aggregate_emotions [] st sid m now = Inl ZeroDivisionError \<and>
   (results \<noteq> [] \<longrightarrow>
      py_sum_div (map sr_positive_score results) (length results) =
        Inr (mean (map sr_positive_score results)) \<and>
      py_sum_div (map sr_negative_score results) (length results) =
        Inr (mean (map sr_negative_score results)) \<and>
      py_sum_div (map sr_neutral_score results) (length results) =
        Inr (mean (map sr_neutral_score results)) \<and>
      aggregate_sentiment results st sid m now \<noteq> Inl ZeroDivisionError) \<and>
   (eresults \<noteq> [] \<longrightarrow>
      (\<forall>(e, field) \<in> set emotion_fields.
          py_sum_div (map field eresults) (length eresults) = Inr (mean (map field eresults))) \<and>
      aggregate_emotions eresults st sid m now \<noteq> Inl ZeroDivisionError)"
proof (intro conjI impI)
  show "aggregate_sentiment [] st sid m now = Inl ZeroDivisionError"
    by (simp add: aggregate_sentiment_def py_sum_div_def)
  show "aggregate_emotions [] st sid m now = Inl ZeroDivisionError"
    by (simp add: aggregate_emotions_def py_sum_div_def emotion_fields_def)
next
  assume "results \<noteq> []"
  then show "py_sum_div (map sr_positive_score results) (length results) =
        Inr (mean (map sr_positive_score results))"
    "py_sum_div (map sr_negative_score results) (length results) =
        Inr (mean (map sr_negative_score results))"
    "py_sum_div (map sr_neutral_score results) (length results) =
        Inr (mean (map sr_neutral_score results))"
    "aggregate_sentiment results st sid m now \<noteq> Inl ZeroDivisionError"
    by (simp_all add: py_sum_div_mean aggregate_sentiment_not_zero_division)
next
  assume "eresults \<noteq> []"
  then show "\<forall>(e, field) \<in> set emotion_fields.
          py_sum_div (map field eresults) (length eresults) = Inr (mean (map field eresults))"
    "aggregate_emotions eresults st sid m now \<noteq> Inl ZeroDivisionError"
    by (simp_all add: py_sum_div_mean aggregate_emotions_not_zero_division)
qed

theorem aggregate_requires_nonempty_witness:
  "[chunk_s] \<noteq> [] \<and> [chunk_a] \<noteq> [] \<and>
   aggregate_sentiment [] ''blog'' 1 ''m'' ''t1'' = Inl ZeroDivisionError \<and>
   aggregate_emotions [] ''blog'' 1 ''m'' ''t1'' = Inl ZeroDivisionError \<and>
   aggregate_sentiment [chunk_s] ''blog'' 1 ''m'' ''t1'' \<noteq> Inl ZeroDivisionError \<and>
   aggregate_emotions [chunk_a] ''blog'' 1 ''m'' ''t1'' \<noteq> Inl ZeroDivisionError \<and>
   py_sum_div (map sr_positive_score [chunk_s]) (length [chunk_s]) = Inr 0.8"
proof -
  have m: "mean (map sr_positive_score [chunk_s]) = 0.8"
    by (simp add: mean_def chunk_s_def)
  from aggregate_requires_nonempty [where results = "[chunk_s]" and eresults = "[chunk_a]"
      and st = "''blog''" and sid = 1 and m = "''m''" and now = "''t1''"] m
  show ?thesis by simp
qed

text \<open>
  Claim C6. When \<open>chunk_text\<close> yields exactly one chunk, the result \<open>_analyze_rows\<close>
  stores is the result of \<open>analyze_text\<close> on that chunk, unchanged. Aggregating the
  one-element list of a result of \<open>analyze_text\<close> returns the same label and the same
  scores: the aggregate differs from the element in the time stamp only.
\<close>

theorem single_chunk_passthrough:
  "(chunk_text (an_encode sa) (an_decode sa) doc 400 100 = Inr [c] \<and>
    sentiment_analyze_text sa now c st rid = Inr r \<longrightarrow>
      row_sentiment sa now doc st rid = Inr r) \<and>
   (chunk_text (an_encode ea) (an_decode ea) doc 400 100 = Inr [c] \<and>
    emotion_analyze_text ea now c st rid = Inr er \<longrightarrow>
      row_emotion ea now doc st rid = Inr er) \<and>
   (sentiment_analyze_text sa now c st rid = Inr r \<longrightarrow>
      (\<exists>agg. aggregate_sentiment [r] st rid (an_model_name sa) now' = Inr agg \<and>
         agg = r\<lparr>sr_analyzed_at := now'\<rparr> \<and>
         sr_label agg = sr_label r \<and>
         sr_positive_score agg = sr_positive_score r \<and>
         sr_negative_score agg = sr_negative_score r \<and>
         sr_neutral_score agg = sr_neutral_score r)) \<and>
   (emotion_analyze_text ea now c st rid = Inr er \<longrightarrow>
      (\<exists>agg. aggregate_emotions [er] st rid (an_model_name ea) now' = Inr agg \<and>
         agg = er\<lparr>er_analyzed_at := now'\<rparr> \<and>
         er_dominant_emotion agg = er_dominant_emotion er \<and>
         er_anger_score agg = er_anger_score er \<and>
         er_disgust_score agg = er_disgust_score er \<and>
         er_fear_score agg = er_fear_score er \<and>
         er_joy_score agg = er_joy_score er \<and>
         er_neutral_score agg = er_neutral_score er \<and>
         er_sadness_score agg = er_sadness_score er \<and>
         er_surprise_score agg = er_surprise_score er))"
proof (intro conjI impI)
  assume "chunk_text (an_encode sa) (an_decode sa) doc 400 100 = Inr [c] \<and>
    sentiment_analyze_text sa now c st rid = Inr r"
  then show "row_sentiment sa now doc st rid = Inr r"
    by (simp add: row_sentiment_def)
next
  assume "chunk_text (an_encode ea) (an_decode ea) doc 400 100 = Inr [c] \<and>
    emotion_analyze_text ea now c st rid = Inr er"
  then show "row_emotion ea now doc st rid = Inr er"
    by (simp add: row_emotion_def)
next
  assume a: "sentiment_analyze_text sa now c st rid = Inr r"
  note f = sentiment_analyze_text_result [OF a]
  have st: "valid_source_type st" using f by (auto simp: valid_sentiment_def)
  have "aggregate_sentiment [r] st rid (an_model_name sa) now' =
      Inr (r\<lparr>sr_source_type := st, sr_source_id := rid, sr_model_name := an_model_name sa,
             sr_analyzed_at := now'\<rparr>)"
    using aggregate_sentiment_single [of r st rid "an_model_name sa" now'] f st by blast
  moreover have "r\<lparr>sr_source_type := st, sr_source_id := rid,
      sr_model_name := an_model_name sa, sr_analyzed_at := now'\<rparr> = r\<lparr>sr_analyzed_at := now'\<rparr>"
    using f by simp
  ultimately show "\<exists>agg. aggregate_sentiment [r] st rid (an_model_name sa) now' = Inr agg \<and>
         agg = r\<lparr>sr_analyzed_at := now'\<rparr> \<and>
         sr_label agg = sr_label r \<and>
         sr_positive_score agg = sr_positive_score r \<and>
         sr_negative_score agg = sr_negative_score r \<and>
         sr_neutral_score agg = sr_neutral_score r"
    by simp
next
  assume a: "emotion_analyze_text ea now c st rid = Inr er"
  note f = emotion_analyze_text_result [OF a]
  have st: "valid_source_type st" using f by (auto simp: valid_emotion_def)
  have "aggregate_emotions [er] st rid (an_model_name ea) now' =
      Inr (er\<lparr>er_source_type := st, er_source_id := rid, er_model_name := an_model_name ea,
             er_analyzed_at := now'\<rparr>)"
    using aggregate_emotions_single [of er st rid "an_model_name ea" now'] f st by blast
  moreover have "er\<lparr>er_source_type := st, er_source_id := rid,
      er_model_name := an_model_name ea, er_analyzed_at := now'\<rparr> = er\<lparr>er_analyzed_at := now'\<rparr>"
    using f by simp
  ultimately show "\<exists>agg. aggregate_emotions [er] st rid (an_model_name ea) now' = Inr agg \<and>
         agg = er\<lparr>er_analyzed_at := now'\<rparr> \<and>
         er_dominant_emotion agg = er_dominant_emotion er \<and>
         er_anger_score agg = er_anger_score er \<and>
         er_disgust_score agg = er_disgust_score er \<and>
         er_fear_score agg = er_fear_score er \<and>
         er_joy_score agg = er_joy_score er \<and>
         er_neutral_score agg = er_neutral_score er \<and>
         er_sadness_score agg = er_sadness_score er \<and>
         er_surprise_score agg = er_surprise_score er"
    by simp
qed

lemma mock_sentiment_eval:
  "sentiment_analyze_text mock_sentiment ''t0'' ''hello'' ''blog'' 1 = Inr mock_sentiment_out"
  by (simp add: sentiment_analyze_text_def mock_sentiment_def sentiment_scores_def
      LABEL_MAP_def dict_set_def dict_get_def py_max_key_def SentimentResult_def
      valid_source_type_def valid_label_def valid_score_def mock_sentiment_out_def Let_def)

lemma mock_emotion_eval:
  "emotion_analyze_text mock_emotion ''t0'' ''hello'' ''blog'' 1 = Inr mock_emotion_out"
  by (simp add: emotion_analyze_text_def mock_emotion_def emotion_scores_def
      EMOTION_LABELS_def dict_set_def dict_get_def py_max_key_def EmotionResult_def
      valid_source_type_def valid_score_def mock_emotion_out_def Let_def lower_def
      lower_char_def)

lemma mock_chunk:
  "chunk_text (an_encode mock_sentiment) (an_decode mock_sentiment) ''hello'' 400 100 = Inr [''hello'']"
  "chunk_text (an_encode mock_emotion) (an_decode mock_emotion) ''hello'' 400 100 = Inr [''hello'']"
  by (simp_all add: chunk_text_def mock_sentiment_def mock_emotion_def)

theorem single_chunk_passthrough_witness:
  "chunk_text (an_encode mock_sentiment) (an_decode mock_sentiment) ''hello'' 400 100 = Inr [''hello''] \<and>
   sentiment_analyze_text mock_sentiment ''t0'' ''hello'' ''blog'' 1 = Inr mock_sentiment_out \<and>
   chunk_text (an_encode mock_emotion) (an_decode mock_emotion) ''hello'' 400 100 = Inr [''hello''] \<and>
   emotion_analyze_text mock_emotion ''t0'' ''hello'' ''blog'' 1 = Inr mock_emotion_out \<and>
   row_sentiment mock_sentiment ''t0'' ''hello'' ''blog'' 1 = Inr mock_sentiment_out \<and>
   row_emotion mock_emotion ''t0'' ''hello'' ''blog'' 1 = Inr mock_emotion_out \<and>
   aggregate_sentiment [mock_sentiment_out] ''blog'' 1 ''test-sentiment-model'' ''t1'' =
     Inr (mock_sentiment_out\<lparr>sr_analyzed_at := ''t1''\<rparr>) \<and>
   aggregate_emotions [mock_emotion_out] ''blog'' 1 ''test-emotion-model'' ''t1'' =
     Inr (mock_emotion_out\<lparr>er_analyzed_at := ''t1''\<rparr>)"
proof -
  have n: "an_model_name mock_sentiment = ''test-sentiment-model''"
    "an_model_name mock_emotion = ''test-emotion-model''"
    by (simp_all add: mock_sentiment_def mock_emotion_def)
  from single_chunk_passthrough [where sa = mock_sentiment and ea = mock_emotion
      and doc = "''hello''" and c = "''hello''" and now = "''t0''" and st = "''blog''"
      and rid = 1 and r = mock_sentiment_out and er = mock_emotion_out and now' = "''t1''"]
    mock_sentiment_eval mock_emotion_eval mock_chunk n
  show ?thesis by simp
qed

section \<open>Properties of the transcript segmenter\<close>

lemma flush_turn_append:
  "flush_turn name sp parts segs = segs @ flush_turn name sp parts []"
  by (simp add: flush_turn_def Let_def split: option.splits)

lemma flush_turn_emit:
  "flush_turn name sp parts segs =
     segs @ concat (map (emit_turn name) (case sp of None \<Rightarrow> [] | Some s \<Rightarrow> [(s, parts)]))"
  by (subst flush_turn_append) (simp add: emit_turn_def flush_turn_def split: option.splits)

lemma segment_fold_turns:
  "foldl (segment_step name) (concat (map (emit_turn name) turns), sp, parts) lines =
     (case foldl turn_step (turns, sp, parts) lines of
        (turns', sp', parts') \<Rightarrow> (concat (map (emit_turn name) turns'), sp', parts'))"
proof (induction lines arbitrary: turns sp parts)
  case Nil
  show ?case by simp
next
  case (Cons line lines)
  show ?case
  proof (cases "match_speaker line")
    case None
    then show ?thesis
      using Cons.IH [of turns sp "if strip line \<noteq> [] then parts @ [strip line] else parts"]
      by (simp add: segment_step_def turn_step_def)
  next
    case (Some m)
    obtain nm remainder where m: "m = (nm, remainder)" by (cases m)
    let ?turns = "turns @ (case sp of None \<Rightarrow> [] | Some s \<Rightarrow> [(s, parts)])"
    have fl: "flush_turn name sp parts (concat (map (emit_turn name) turns)) =
        concat (map (emit_turn name) ?turns)"
      by (subst flush_turn_emit) simp
    show ?thesis
      using Cons.IH [of ?turns "Some (strip nm)" "if strip remainder \<noteq> [] then [remainder] else []"]
        Some m fl
      by (simp add: segment_step_def turn_step_def)
  qed
qed

lemma split_segments_turns:
  "split_segments doc name = concat (map (emit_turn name) (speaker_turns doc))"
proof -
  obtain turns sp parts where f: "foldl turn_step ([], None, []) (split_lines doc) = (turns, sp, parts)"
    by (cases "foldl turn_step ([], None, []) (split_lines doc)") auto
  have "foldl (segment_step name) ([], None, []) (split_lines doc) =
      (concat (map (emit_turn name) turns), sp, parts)"
    using segment_fold_turns [of name "[]" None "[]" "split_lines doc"] f by simp
  then show ?thesis
    using f by (simp add: split_segments_def speaker_turns_def flush_turn_emit)
qed

lemma emit_turn_cases:
  "emit_turn name (sp, parts) =
     (if parts \<noteq> [] \<and> 20 < length (normalize_parts parts)
      then [\<lparr>seg_speaker = (if sublist (upper name) (upper sp) then ''interviewer'' else ''astronaut''),
             seg_text = normalize_parts parts\<rparr>]
      else [])"
  by (simp add: emit_turn_def flush_turn_def Let_def)

text \<open>
  Claim C7. On the example transcript with the interviewer surname "Wright",
  \<open>split_segments\<close> yields exactly two segments, the first of the interviewer and the
  second of the astronaut. In general the output is, turn by turn, what the closed speaker
  turns contribute, and a segment contributed by a turn with speaker label \<open>sp\<close> has the
  speaker "interviewer" if and only if the upper-cased label contains the upper-cased
  surname, and "astronaut" otherwise.
\<close>

theorem split_segments_roles:
  "split_segments sample_transcript ''Wright'' =
     [\<lparr>seg_speaker = ''interviewer'', seg_text = ''Hi there, how are you doing today?''\<rparr>,
      \<lparr>seg_speaker = ''astronaut'', seg_text = ''I am doing well thank you for asking me.''\<rparr>] \<and>
   split_segments doc name = concat (map (emit_turn name) (speaker_turns doc)) \<and>
   (\<forall>seg \<in> set (emit_turn name (sp, parts)).
      (seg_speaker seg = ''interviewer'' \<longleftrightarrow> sublist (upper name) (upper sp)) \<and>
      (seg_speaker seg = ''astronaut'' \<longleftrightarrow> \<not> sublist (upper name) (upper sp)))"
proof (intro conjI)
  show "split_segments sample_transcript ''Wright'' =
     [\<lparr>seg_speaker = ''interviewer'', seg_text = ''Hi there, how are you doing today?''\<rparr>,
      \<lparr>seg_speaker = ''astronaut'', seg_text = ''I am doing well thank you for asking me.''\<rparr>]"
    by code_simp
  show "split_segments doc name = concat (map (emit_turn name) (speaker_turns doc))"
    by (rule split_segments_turns)
  show "\<forall>seg \<in> set (emit_turn name (sp, parts)).
      (seg_speaker seg = ''interviewer'' \<longleftrightarrow> sublist (upper name) (upper sp)) \<and>
      (seg_speaker seg = ''astronaut'' \<longleftrightarrow> \<not> sublist (upper name) (upper sp))"
    by (simp add: emit_turn_cases)
qed

theorem split_segments_roles_witness:
  "emit_turn ''Wright'' (''WRIGHT'', [''Hi there, how are you doing today?'']) =
     [\<lparr>seg_speaker = ''interviewer'', seg_text = ''Hi there, how are you doing today?''\<rparr>] \<and>
   sublist (upper ''Wright'') (upper ''WRIGHT'') \<and>
   emit_turn ''Wright'' (''WHITSON'', [''I am doing well thank you for asking me.'']) =
     [\<lparr>seg_speaker = ''astronaut'', seg_text = ''I am doing well thank you for asking me.''\<rparr>] \<and>
   \<not> sublist (upper ''Wright'') (upper ''WHITSON'') \<and>
   length (split_segments sample_transcript ''Wright'') = 2"
proof -
  have a: "emit_turn ''Wright'' (''WRIGHT'', [''Hi there, how are you doing today?'']) =
     [\<lparr>seg_speaker = ''interviewer'', seg_text = ''Hi there, how are you doing today?''\<rparr>]"
    by code_simp
  have b: "emit_turn ''Wright'' (''WHITSON'', [''I am doing well thank you for asking me.'']) =
     [\<lparr>seg_speaker = ''astronaut'', seg_text = ''I am doing well thank you for asking me.''\<rparr>]"
    by code_simp
  have c: "sublist (upper ''Wright'') (upper ''WRIGHT'')"
    using split_segments_roles [where name = "''Wright''" and sp = "''WRIGHT''"
        and parts = "[''Hi there, how are you doing today?'']"] a
    by simp
  have d: "\<not> sublist (upper ''Wright'') (upper ''WHITSON'')"
    using split_segments_roles [where name = "''Wright''" and sp = "''WHITSON''"
        and parts = "[''I am doing well thank you for asking me.'']"] b
    by simp
  have e: "length (split_segments sample_transcript ''Wright'') = 2"
    using conjunct1 [OF split_segments_roles [where name = "''Wright''"]] by simp
  from a b c d e show ?thesis by simp
qed

lemma words_of_Nil:
  assumes "dropWhile is_space s = []"
  shows "words_of s = []"
  by (subst words_of.simps) (simp only: assms list.case)

lemma words_of_Cons:
  assumes "dropWhile is_space s = c # cs"
  shows "words_of s = (c # takeWhile (\<lambda>x. \<not> is_space x) cs) #
                words_of (dropWhile (\<lambda>x. \<not> is_space x) cs)"
  by (subst words_of.simps) (simp only: assms list.case)

lemma dropWhile_idem: "dropWhile P (dropWhile P s) = dropWhile P s"
  by (induction s) auto

lemma words_of_dropWhile: "words_of (dropWhile is_space s) = words_of s"
proof (cases "dropWhile is_space s")
  case Nil
  then show ?thesis by (simp add: words_of_Nil)
next
  case (Cons c cs)
  have "dropWhile is_space (dropWhile is_space s) = dropWhile is_space s"
    by (rule dropWhile_idem)
  then have "dropWhile is_space (dropWhile is_space s) = c # cs" using Cons by (rule trans)
  from words_of_Cons [OF this] words_of_Cons [OF Cons] show ?thesis by simp
qed

lemma rstrip_append_nonspace:
  "\<exists>x \<in> set b. \<not> is_space x \<Longrightarrow> rstrip (a @ b) = a @ rstrip b"
proof -
  assume "\<exists>x \<in> set b. \<not> is_space x"
  then obtain x where "x \<in> set (rev b)" "\<not> is_space x" by auto
  then have "dropWhile is_space (rev b @ rev a) = dropWhile is_space (rev b) @ rev a"
    by (rule dropWhile_append1)
  then show ?thesis by (simp add: rstrip_def)
qed

lemma rstrip_all_space:
  assumes "\<forall>x \<in> set b. is_space x"
  shows "rstrip (a @ b) = rstrip a"
proof -
  have "dropWhile is_space (rev b @ rev a) = dropWhile is_space (rev a)"
    using assms by (intro dropWhile_append2) simp
  then show ?thesis by (simp add: rstrip_def)
qed

lemma rstrip_last_nonspace: "s \<noteq> [] \<Longrightarrow> \<not> is_space (last s) \<Longrightarrow> rstrip s = s"
  by (cases s rule: rev_cases) (simp_all add: rstrip_def)

lemma rstrip_hd:
  "s \<noteq> [] \<Longrightarrow> \<not> is_space (hd s) \<Longrightarrow> rstrip s \<noteq> [] \<and> hd (rstrip s) = hd s"
proof -
  assume a: "s \<noteq> []" "\<not> is_space (hd s)"
  then obtain c cs where s: "s = [c] @ cs" by (cases s) auto
  show ?thesis
  proof (cases "\<exists>x \<in> set cs. \<not> is_space x")
    case True
    then show ?thesis unfolding s by (simp only: rstrip_append_nonspace) simp
  next
    case False
    then have "rstrip ([c] @ cs) = rstrip [c]" by (intro rstrip_all_space) auto
    with a s show ?thesis by (simp add: rstrip_def)
  qed
qed

lemma collapse_word:
  "\<forall>x \<in> set w. \<not> is_space x \<Longrightarrow> w \<noteq> [] \<Longrightarrow>
   collapse_from b (w @ r) = w @ collapse_from False r"
proof (induction w arbitrary: b)
  case Nil then show ?case by simp
next
  case (Cons c w)
  show ?case
  proof (cases "w = []")
    case True with Cons.prems show ?thesis by simp
  next
    case False
    with Cons show ?thesis by simp
  qed
qed

lemma collapse_word_only:
  "\<forall>x \<in> set w. \<not> is_space x \<Longrightarrow> collapse_from b w = w"
  by (induction w arbitrary: b) auto

lemma collapse_spaces_True:
  "\<forall>x \<in> set sps. is_space x \<Longrightarrow> collapse_from True (sps @ r) = collapse_from True r"
  by (induction sps) auto

lemma collapse_spaces:
  "\<forall>x \<in> set sps. is_space x \<Longrightarrow> sps \<noteq> [] \<Longrightarrow>
   collapse_from False (sps @ r) = CHR '' '' # collapse_from True r"
  by (cases sps) (auto simp: collapse_spaces_True)

lemma collapse_True_nonspace:
  "r \<noteq> [] \<Longrightarrow> \<not> is_space (hd r) \<Longrightarrow> collapse_from True r = collapse_from False r"
  by (cases r) auto

lemma collapse_rstrip_words:
  "s = [] \<or> \<not> is_space (hd s) \<Longrightarrow> collapse_from False (rstrip s) = join_space (words_of s)"
proof (induction s rule: length_induct)
  case (1 s)
  show ?case
  proof (cases s)
    case Nil
    then show ?thesis by (simp add: rstrip_def words_of_Nil)
  next
    case (Cons c cs)
    with "1.prems" have nc: "\<not> is_space c" by simp
    define w where "w = c # takeWhile (\<lambda>x. \<not> is_space x) cs"
    define rest where "rest = dropWhile (\<lambda>x. \<not> is_space x) cs"
    have s: "s = w @ rest" using Cons by (simp add: w_def rest_def)
    have wne: "w \<noteq> []" by (simp add: w_def)
    have wns: "\<forall>x \<in> set w. \<not> is_space x"
      using nc by (auto simp: w_def dest: set_takeWhileD)
    have wlast: "\<not> is_space (last w)" using wns wne last_in_set by blast
    have rhd: "rest \<noteq> [] \<Longrightarrow> is_space (hd rest)"
      using hd_dropWhile [of "\<lambda>x. \<not> is_space x" cs] by (simp add: rest_def)
    have rlen: "length rest < length s"
      using length_dropWhile_le [of "\<lambda>x. \<not> is_space x" cs] Cons by (simp add: rest_def)
    have "dropWhile is_space s = c # cs" using Cons nc by simp
    from words_of_Cons [OF this] have wo: "words_of s = w # words_of rest"
      by (simp only: w_def rest_def)
    show ?thesis
    proof (cases "\<forall>x \<in> set rest. is_space x")
      case True
      then have e: "dropWhile is_space rest = []" by (simp only: dropWhile_eq_Nil_conv)
      have "rstrip s = rstrip w" unfolding s by (rule rstrip_all_space [OF True])
      also have "\<dots> = w" by (rule rstrip_last_nonspace [OF wne wlast])
      finally have "collapse_from False (rstrip s) = w"
        using collapse_word_only [OF wns] by simp
      moreover have "words_of rest = []" using e by (rule words_of_Nil)
      ultimately show ?thesis using wo by simp
    next
      case False
      define sps where "sps = takeWhile is_space rest"
      define t where "t = dropWhile is_space rest"
      have rest: "rest = sps @ t" by (simp add: sps_def t_def)
      have tne: "t \<noteq> []"
        using False unfolding t_def by (simp only: dropWhile_eq_Nil_conv not_False_eq_True)
      have thd: "\<not> is_space (hd t)" using tne unfolding t_def by (rule hd_dropWhile)
      have rne: "rest \<noteq> []" using rest tne by auto
      have spss: "\<forall>x \<in> set sps. is_space x" unfolding sps_def by (auto dest: set_takeWhileD)
      have spsne: "sps \<noteq> []"
      proof
        assume "sps = []"
        with rest have "rest = t" by simp
        with rhd [OF rne] thd show False by simp
      qed
      have tex': "\<exists>x \<in> set t. \<not> is_space x" using tne thd hd_in_set by blast
      then have tex: "\<exists>x \<in> set (sps @ t). \<not> is_space x" by auto
      have len: "length t < length s" using rlen rest by simp
      have ih: "collapse_from False (rstrip t) = join_space (words_of t)"
        using "1.IH" len thd by blast
      have u: "rstrip t \<noteq> []" "\<not> is_space (hd (rstrip t))"
        using rstrip_hd [OF tne thd] thd by simp_all
      have "rstrip s = rstrip (w @ (sps @ t))" unfolding s rest ..
      also have "\<dots> = w @ rstrip (sps @ t)"
        by (rule rstrip_append_nonspace [OF tex])
      also have "\<dots> = w @ sps @ rstrip t"
        by (simp only: rstrip_append_nonspace [OF tex'])
      finally have rs: "rstrip s = w @ sps @ rstrip t" .
      have c1: "collapse_from False (w @ sps @ rstrip t) =
          w @ collapse_from False (sps @ rstrip t)"
        by (rule collapse_word [OF wns wne])
      have c2: "collapse_from False (sps @ rstrip t) = CHR '' '' # collapse_from True (rstrip t)"
        by (rule collapse_spaces [OF spss spsne])
      have c3: "collapse_from True (rstrip t) = collapse_from False (rstrip t)"
        by (rule collapse_True_nonspace [OF u])
      have cf: "collapse_from False (rstrip s) = w @ CHR '' '' # join_space (words_of t)"
        by (simp only: rs c1 c2 c3 ih)
      have wt: "words_of rest = words_of t" unfolding t_def by (simp only: words_of_dropWhile)
      obtain d ds where dd: "t = d # ds" using tne by (cases t) auto
      then have "dropWhile is_space t = d # ds" using thd by simp
      from words_of_Cons [OF this] obtain v vs where vv: "words_of t = v # vs" by blast
      have "join_space (words_of s) = w @ CHR '' '' # join_space (words_of t)"
        by (simp add: wo wt vv)
      with cf show ?thesis by simp
    qed
  qed
qed

lemma normalize_parts_single_spaced:
  "normalize_parts parts = single_spaced (join_space parts)"
proof -
  let ?s = "join_space parts"
  let ?t = "dropWhile is_space ?s"
  have "?t = [] \<or> \<not> is_space (hd ?t)" using hd_dropWhile [of is_space ?s] by blast
  then have "collapse_from False (rstrip ?t) = join_space (words_of ?t)"
    by (rule collapse_rstrip_words)
  then show ?thesis
    by (simp add: normalize_parts_def collapse_ws_def strip_def rstrip_def single_spaced_def
        words_of_dropWhile)
qed

text \<open>
  Claim C8. Every segment in the output of \<open>split_segments\<close> has a text of more than 20
  characters, and that text is the whitespace-normalised buffer of one of the closed
  speaker turns: the words of the joined buffer separated by single spaces. The threshold
  is applied to the normalised text: a turn whose normalised text has 20 characters or
  fewer adds nothing to the segments, wherever it is flushed and whatever its length as
  written, and a turn whose normalised text has more than 20 characters adds exactly one
  segment, with the normalised text.
\<close>

theorem split_segments_min_length:
  "(\<forall>seg \<in> set (split_segments doc name).
      20 < length (seg_text seg) \<and>
      (\<exists>(sp, parts) \<in> set (speaker_turns doc).
         seg_text seg = single_spaced (join_space parts))) \<and>
   (length (single_spaced (join_space parts)) \<le> 20 \<longrightarrow>
      flush_turn name current_speaker parts segments = segments) \<and>
   (20 < length (single_spaced (join_space parts)) \<longrightarrow>
      flush_turn name (Some sp) parts segments =
        segments @
          [\<lparr>seg_speaker =
              (if sublist (upper name) (upper sp) then ''interviewer'' else ''astronaut''),
            seg_text = single_spaced (join_space parts)\<rparr>])"
proof (intro conjI ballI impI)
  fix seg assume "seg \<in> set (split_segments doc name)"
  then obtain sp ps where t: "(sp, ps) \<in> set (speaker_turns doc)"
    and s: "seg \<in> set (emit_turn name (sp, ps))"
    by (auto simp: split_segments_turns)
  from s have "20 < length (seg_text seg)" "seg_text seg = single_spaced (join_space ps)"
    by (auto simp: emit_turn_cases normalize_parts_single_spaced split: if_splits)
  with t show "20 < length (seg_text seg)"
    "\<exists>(sp, parts) \<in> set (speaker_turns doc). seg_text seg = single_spaced (join_space parts)"
    by auto
next
  assume "length (single_spaced (join_space parts)) \<le> 20"
  then show "flush_turn name current_speaker parts segments = segments"
    by (simp add: flush_turn_def Let_def normalize_parts_single_spaced split: option.splits)
next
  assume a: "20 < length (single_spaced (join_space parts))"
  have "parts \<noteq> []"
  proof
    assume "parts = []"
    then have "single_spaced (join_space parts) = []"
      by (simp add: single_spaced_def words_of_Nil)
    with a show False by simp
  qed
  with a show "flush_turn name (Some sp) parts segments =
        segments @
          [\<lparr>seg_speaker =
              (if sublist (upper name) (upper sp) then ''interviewer'' else ''astronaut''),
            seg_text = single_spaced (join_space parts)\<rparr>]"
    by (simp add: flush_turn_def Let_def normalize_parts_single_spaced)
qed

theorem split_segments_min_length_witness:
  "split_segments padded_transcript ''Wright'' =
     [\<lparr>seg_speaker = ''interviewer'', seg_text = ''Hi there, how are you doing today?''\<rparr>,
      \<lparr>seg_speaker = ''astronaut'', seg_text = ''I am fine, thank you.''\<rparr>] \<and>
   speaker_turns padded_transcript =
     [(''WRIGHT'', [''Hi there, how are you doing today?'']),
      (''WHITSON'', [''I am   fine   thank   you.'']),
      (''WHITSON'', [''I am fine,    thank you.''])] \<and>
   single_spaced (join_space [''I am   fine   thank   you.'']) = ''I am fine thank you.'' \<and>
   length ''I am   fine   thank   you.'' = 26 \<and>
   length (single_spaced (join_space [''I am   fine   thank   you.''])) = 20 \<and>
   flush_turn ''Wright'' (Some ''WHITSON'') [''I am   fine   thank   you.''] [] = [] \<and>
   single_spaced (join_space [''I am fine,    thank you.'']) = ''I am fine, thank you.'' \<and>
   length (single_spaced (join_space [''I am fine,    thank you.''])) = 21 \<and>
   flush_turn ''Wright'' (Some ''WHITSON'') [''I am fine,    thank you.''] [] =
     [\<lparr>seg_speaker = ''astronaut'', seg_text = ''I am fine, thank you.''\<rparr>]"
proof -
  have a: "split_segments padded_transcript ''Wright'' =
     [\<lparr>seg_speaker = ''interviewer'', seg_text = ''Hi there, how are you doing today?''\<rparr>,
      \<lparr>seg_speaker = ''astronaut'', seg_text = ''I am fine, thank you.''\<rparr>]"
    by code_simp
  have b: "speaker_turns padded_transcript =
     [(''WRIGHT'', [''Hi there, how are you doing today?'']),
      (''WHITSON'', [''I am   fine   thank   you.'']),
      (''WHITSON'', [''I am fine,    thank you.''])]"
    by code_simp
  have c: "single_spaced (join_space [''I am   fine   thank   you.'']) = ''I am fine thank you.''"
    by code_simp
  have d: "single_spaced (join_space [''I am fine,    thank you.'']) = ''I am fine, thank you.''"
    by code_simp
  have u: "\<not> sublist (upper ''Wright'') (upper ''WHITSON'')" by code_simp
  note t1 = split_segments_min_length [where parts = "[''I am   fine   thank   you.'']"
      and name = "''Wright''" and current_speaker = "Some ''WHITSON''" and segments = "[]"]
  note t2 = split_segments_min_length [where parts = "[''I am fine,    thank you.'']"
      and name = "''Wright''" and sp = "''WHITSON''" and segments = "[]"]
  from t1 c have e: "flush_turn ''Wright'' (Some ''WHITSON'') [''I am   fine   thank   you.''] [] = []"
    by simp
  from t2 d u have f: "flush_turn ''Wright'' (Some ''WHITSON'') [''I am fine,    thank you.''] [] =
     [\<lparr>seg_speaker = ''astronaut'', seg_text = ''I am fine, thank you.''\<rparr>]"
    by simp
  from a b c d e f show ?thesis by simp
qed

section \<open>Properties of the dedup gate\<close>

lemma insert_sentiment_has:
  "valid_source_type (sr_source_type r) \<Longrightarrow>
   has_sentiment (insert_sentiment db r) (sr_source_type r) (sr_source_id r) (sr_model_name r)"
  by (auto simp: insert_sentiment_def has_sentiment_def)

lemma insert_emotion_has:
  "valid_source_type (er_source_type r) \<Longrightarrow>
   has_emotion (insert_emotion db r) (er_source_type r) (er_source_id r) (er_model_name r)"
  by (auto simp: insert_emotion_def has_emotion_def)

lemma insert_expedition_results:
  "sentiment_results (insert_expedition db e) = sentiment_results db \<and>
   emotion_results (insert_expedition db e) = emotion_results db \<and>
   linguistic_results (insert_expedition db e) = linguistic_results db \<and>
   oral_histories (insert_expedition db e) = oral_histories db \<and>
   blog_posts (insert_expedition db e) = blog_posts db"
  by (simp add: insert_expedition_def)

lemma insert_expeditions_results:
  "sentiment_results (foldl insert_expedition db es) = sentiment_results db \<and>
   emotion_results (foldl insert_expedition db es) = emotion_results db \<and>
   linguistic_results (foldl insert_expedition db es) = linguistic_results db \<and>
   oral_histories (foldl insert_expedition db es) = oral_histories db \<and>
   blog_posts (foldl insert_expedition db es) = blog_posts db"
  by (induction es arbitrary: db) (simp_all add: insert_expedition_results)

lemma apply_db_op_sentiment_mono:
  "set (sentiment_results db) \<subseteq> set (sentiment_results (apply_db_op db op))"
  by (cases op)
     (auto simp: init_db_def insert_expeditions_def insert_expeditions_results
        insert_blog_post_def insert_oral_history_def insert_sentiment_def
        insert_emotion_def insert_linguistic_def)

lemma apply_db_op_emotion_mono:
  "set (emotion_results db) \<subseteq> set (emotion_results (apply_db_op db op))"
  by (cases op)
     (auto simp: init_db_def insert_expeditions_def insert_expeditions_results
        insert_blog_post_def insert_oral_history_def insert_sentiment_def
        insert_emotion_def insert_linguistic_def)

lemma apply_db_ops_sentiment_mono:
  "set (sentiment_results db) \<subseteq> set (sentiment_results (foldl apply_db_op db ops))"
proof (induction ops arbitrary: db)
  case Nil show ?case by simp
next
  case (Cons op ops)
  show ?case using apply_db_op_sentiment_mono [of db op] Cons.IH [of "apply_db_op db op"] by auto
qed

lemma apply_db_ops_emotion_mono:
  "set (emotion_results db) \<subseteq> set (emotion_results (foldl apply_db_op db ops))"
proof (induction ops arbitrary: db)
  case Nil show ?case by simp
next
  case (Cons op ops)
  show ?case using apply_db_op_emotion_mono [of db op] Cons.IH [of "apply_db_op db op"] by auto
qed

lemma has_sentiment_ops:
  "has_sentiment db st sid m \<Longrightarrow> has_sentiment (foldl apply_db_op db ops) st sid m"
  using apply_db_ops_sentiment_mono [of db ops] unfolding has_sentiment_def by blast

lemma has_emotion_ops:
  "has_emotion db st sid m \<Longrightarrow> has_emotion (foldl apply_db_op db ops) st sid m"
  using apply_db_ops_emotion_mono [of db ops] unfolding has_emotion_def by blast

lemma get_unanalyzed_sentiment_excludes:
  assumes "has_sentiment db st sid m"
  shows "\<exists>rows. get_unanalyzed db src SentimentResultsTable st (Some m) = Inr rows \<and>
           sid \<notin> row_id ` set rows"
proof -
  from assms obtain i a where a: "(i, a) \<in> set (sentiment_results db)"
    "sr_source_type a = st" "sr_source_id a = sid" "sr_model_name a = m"
    unfolding has_sentiment_def by auto
  then have k: "(st, sid, Some m) \<in> set (analysis_keys db SentimentResultsTable)"
    by (force simp: analysis_keys_def)
  show ?thesis
  proof (cases "m = []")
    case True
    with k show ?thesis by (force simp: get_unanalyzed_def)
  next
    case False
    with k show ?thesis by (force simp: get_unanalyzed_def)
  qed
qed

lemma get_unanalyzed_emotion_excludes:
  assumes "has_emotion db st sid m"
  shows "\<exists>rows. get_unanalyzed db src EmotionResultsTable st (Some m) = Inr rows \<and>
           sid \<notin> row_id ` set rows"
proof -
  from assms obtain i a where a: "(i, a) \<in> set (emotion_results db)"
    "er_source_type a = st" "er_source_id a = sid" "er_model_name a = m"
    unfolding has_emotion_def by auto
  then have k: "(st, sid, Some m) \<in> set (analysis_keys db EmotionResultsTable)"
    by (force simp: analysis_keys_def)
  show ?thesis
  proof (cases "m = []")
    case True
    with k show ?thesis by (force simp: get_unanalyzed_def)
  next
    case False
    with k show ?thesis by (force simp: get_unanalyzed_def)
  qed
qed

lemma insert_sentiment_idem:
  "insert_sentiment (insert_sentiment db r) r = insert_sentiment db r"
proof (cases "valid_source_type (sr_source_type r)")
  case True
  from insert_sentiment_has [OF True, of db]
  show ?thesis
    by (subst insert_sentiment_def) (auto simp: has_sentiment_def)
next
  case False
  then show ?thesis by (simp add: insert_sentiment_def)
qed

lemma insert_emotion_idem:
  "insert_emotion (insert_emotion db r) r = insert_emotion db r"
proof (cases "valid_source_type (er_source_type r)")
  case True
  from insert_emotion_has [OF True, of db]
  show ?thesis
    by (subst insert_emotion_def) (auto simp: has_emotion_def)
next
  case False
  then show ?thesis by (simp add: insert_emotion_def)
qed

text \<open>
  Claim C1. After \<open>insert_sentiment\<close> (\<open>insert_emotion\<close>) of a result with a valid source
  type, and after any further operations of the module, among them the \<open>init_db\<close> of a
  process that starts again, \<open>get_unanalyzed\<close> for that source type and model name returns
  rows none of which has the id of the result's source row; the same holds from every
  database that holds a result for the tuple. Repeating the insert leaves the database as
  the first insert left it: no second row, and the function has no error result.
\<close>

theorem stored_result_not_unanalyzed:
  "(valid_source_type (sr_source_type r) \<longrightarrow>
      (\<exists>rows. get_unanalyzed (foldl apply_db_op (insert_sentiment db r) ops) src
                 SentimentResultsTable (sr_source_type r) (Some (sr_model_name r)) = Inr rows \<and>
              sr_source_id r \<notin> row_id ` set rows)) \<and>
   (has_sentiment db st sid m \<longrightarrow>
      (\<exists>rows. get_unanalyzed (foldl apply_db_op db ops) src SentimentResultsTable st (Some m) =
                 Inr rows \<and> sid \<notin> row_id ` set rows)) \<and>
   insert_sentiment (insert_sentiment db r) r = insert_sentiment db r \<and>
   (valid_source_type (er_source_type e) \<longrightarrow>
      (\<exists>rows. get_unanalyzed (foldl apply_db_op (insert_emotion db e) ops) src
                 EmotionResultsTable (er_source_type e) (Some (er_model_name e)) = Inr rows \<and>
              er_source_id e \<notin> row_id ` set rows)) \<and>
   (has_emotion db st sid m \<longrightarrow>
      (\<exists>rows. get_unanalyzed (foldl apply_db_op db ops) src EmotionResultsTable st (Some m) =
                 Inr rows \<and> sid \<notin> row_id ` set rows)) \<and>
   insert_emotion (insert_emotion db e) e = insert_emotion db e"
proof (intro conjI impI)
  assume "valid_source_type (sr_source_type r)"
  then have "has_sentiment (foldl apply_db_op (insert_sentiment db r) ops)
      (sr_source_type r) (sr_source_id r) (sr_model_name r)"
    by (intro has_sentiment_ops insert_sentiment_has)
  then show "\<exists>rows. get_unanalyzed (foldl apply_db_op (insert_sentiment db r) ops) src
                 SentimentResultsTable (sr_source_type r) (Some (sr_model_name r)) = Inr rows \<and>
              sr_source_id r \<notin> row_id ` set rows"
    by (rule get_unanalyzed_sentiment_excludes)
next
  assume "has_sentiment db st sid m"
  then have "has_sentiment (foldl apply_db_op db ops) st sid m" by (rule has_sentiment_ops)
  then show "\<exists>rows. get_unanalyzed (foldl apply_db_op db ops) src SentimentResultsTable st (Some m) =
                 Inr rows \<and> sid \<notin> row_id ` set rows"
    by (rule get_unanalyzed_sentiment_excludes)
next
  show "insert_sentiment (insert_sentiment db r) r = insert_sentiment db r"
    by (rule insert_sentiment_idem)
next
  assume "valid_source_type (er_source_type e)"
  then have "has_emotion (foldl apply_db_op (insert_emotion db e) ops)
      (er_source_type e) (er_source_id e) (er_model_name e)"
    by (intro has_emotion_ops insert_emotion_has)
  then show "\<exists>rows. get_unanalyzed (foldl apply_db_op (insert_emotion db e) ops) src
                 EmotionResultsTable (er_source_type e) (Some (er_model_name e)) = Inr rows \<and>
              er_source_id e \<notin> row_id ` set rows"
    by (rule get_unanalyzed_emotion_excludes)
next
  assume "has_emotion db st sid m"
  then have "has_emotion (foldl apply_db_op db ops) st sid m" by (rule has_emotion_ops)
  then show "\<exists>rows. get_unanalyzed (foldl apply_db_op db ops) src EmotionResultsTable st (Some m) =
                 Inr rows \<and> sid \<notin> row_id ` set rows"
    by (rule get_unanalyzed_emotion_excludes)
next
  show "insert_emotion (insert_emotion db e) e = insert_emotion db e"
    by (rule insert_emotion_idem)
qed

lemma example_unanalyzed_before:
  "get_unanalyzed example_db BlogPostsTable SentimentResultsTable ''blog'' (Some ''model-X'') =
     Inr [BlogRow 1 (example_post ''https://example.com/a''),
          BlogRow 2 (example_post ''https://example.com/b'')]"
  by (simp add: get_unanalyzed_def example_db_def source_rows_def analysis_keys_def)

lemma example_insert_sentiment:
  "insert_sentiment example_db example_sentiment =
     example_db\<lparr>sentiment_results := [(1, example_sentiment)]\<rparr>"
  by (simp add: insert_sentiment_def example_db_def example_sentiment_def next_id_def
      valid_source_type_def)

lemma example_insert_emotion:
  "insert_emotion example_db example_emotion =
     example_db\<lparr>emotion_results := [(1, example_emotion)]\<rparr>"
  by (simp add: insert_emotion_def example_db_def example_emotion_def next_id_def
      valid_source_type_def)

lemma example_unanalyzed_after:
  "get_unanalyzed (example_db\<lparr>sentiment_results := [(1, example_sentiment)]\<rparr>)
     BlogPostsTable SentimentResultsTable ''blog'' (Some ''model-X'') =
     Inr [BlogRow 2 (example_post ''https://example.com/b'')]"
  "get_unanalyzed (example_db\<lparr>emotion_results := [(1, example_emotion)]\<rparr>)
     BlogPostsTable EmotionResultsTable ''blog'' (Some ''model-X'') =
     Inr [BlogRow 2 (example_post ''https://example.com/b'')]"
  by (simp_all add: get_unanalyzed_def example_db_def source_rows_def analysis_keys_def
      example_sentiment_def example_emotion_def)

theorem stored_result_not_unanalyzed_witness:
  "valid_source_type (sr_source_type example_sentiment) \<and>
   valid_source_type (er_source_type example_emotion) \<and>
   has_sentiment (insert_sentiment example_db example_sentiment) ''blog'' 1 ''model-X'' \<and>
   has_emotion (insert_emotion example_db example_emotion) ''blog'' 1 ''model-X'' \<and>
   get_unanalyzed example_db BlogPostsTable SentimentResultsTable ''blog'' (Some ''model-X'') =
     Inr [BlogRow 1 (example_post ''https://example.com/a''),
          BlogRow 2 (example_post ''https://example.com/b'')] \<and>
   get_unanalyzed (foldl apply_db_op (insert_sentiment example_db example_sentiment)
       [InitDb, InsertSentiment example_sentiment])
     BlogPostsTable SentimentResultsTable ''blog'' (Some ''model-X'') =
     Inr [BlogRow 2 (example_post ''https://example.com/b'')] \<and>
   get_unanalyzed (foldl apply_db_op (insert_emotion example_db example_emotion)
       [InitDb, InsertEmotion example_emotion])
     BlogPostsTable EmotionResultsTable ''blog'' (Some ''model-X'') =
     Inr [BlogRow 2 (example_post ''https://example.com/b'')] \<and>
   sentiment_results (insert_sentiment (insert_sentiment example_db example_sentiment)
       example_sentiment) = [(1, example_sentiment)]"
proof -
  have v: "valid_source_type (sr_source_type example_sentiment)"
    "valid_source_type (er_source_type example_emotion)"
    by (simp_all add: example_sentiment_def example_emotion_def valid_source_type_def)
  have k: "sr_source_type example_sentiment = ''blog''" "sr_source_id example_sentiment = 1"
    "sr_model_name example_sentiment = ''model-X''"
    "er_source_type example_emotion = ''blog''" "er_source_id example_emotion = 1"
    "er_model_name example_emotion = ''model-X''"
    by (simp_all add: example_sentiment_def example_emotion_def)
  note t = stored_result_not_unanalyzed [where r = example_sentiment and e = example_emotion
      and db = example_db]
  have idem_s: "insert_sentiment (insert_sentiment example_db example_sentiment)
      example_sentiment = insert_sentiment example_db example_sentiment"
    using t by blast
  have idem_e: "insert_emotion (insert_emotion example_db example_emotion)
      example_emotion = insert_emotion example_db example_emotion"
    using t by blast
  have hs: "has_sentiment (insert_sentiment example_db example_sentiment) ''blog'' 1 ''model-X''"
    by (simp add: example_insert_sentiment has_sentiment_def k)
  have he: "has_emotion (insert_emotion example_db example_emotion) ''blog'' 1 ''model-X''"
    by (simp add: example_insert_emotion has_emotion_def k)
  have a: "foldl apply_db_op (insert_sentiment example_db example_sentiment)
       [InitDb, InsertSentiment example_sentiment] =
       example_db\<lparr>sentiment_results := [(1, example_sentiment)]\<rparr>"
    using idem_s by (simp add: init_db_def example_insert_sentiment)
  have b: "foldl apply_db_op (insert_emotion example_db example_emotion)
       [InitDb, InsertEmotion example_emotion] =
       example_db\<lparr>emotion_results := [(1, example_emotion)]\<rparr>"
    using idem_e by (simp add: init_db_def example_insert_emotion)
  have c: "sentiment_results (insert_sentiment (insert_sentiment example_db example_sentiment)
       example_sentiment) = [(1, example_sentiment)]"
    using idem_s by (simp add: example_insert_sentiment)
  from v hs he a b c example_unanalyzed_before example_unanalyzed_after
  show ?thesis by simp
qed

section \<open>Properties of the orchestration\<close>

lemma bind_err_Inr:
  "bind_err x f = Inr y \<Longrightarrow> \<exists>v. x = Inr v \<and> f v = Inr y"
  by (cases x) auto

lemma map_err_Inr:
  "map_err f xs = Inr ys \<Longrightarrow> \<forall>y \<in> set ys. \<exists>x \<in> set xs. f x = Inr y"
proof (induction xs arbitrary: ys)
  case Nil then show ?case by simp
next
  case (Cons x xs)
  from Cons.prems obtain y where y: "f x = Inr y"
    and r: "bind_err (map_err f xs) (\<lambda>ys'. Inr (y # ys')) = Inr ys"
    by (auto dest!: bind_err_Inr)
  from r obtain ys' where ys': "map_err f xs = Inr ys'" "ys = y # ys'"
    by (auto dest!: bind_err_Inr)
  with Cons.IH [of ys'] y show ?case by auto
qed

lemma filter_err_Inr:
  "filter_err p xs = Inr ys \<Longrightarrow> \<forall>y \<in> set ys. y \<in> set xs \<and> p y = Inr True"
proof (induction xs arbitrary: ys)
  case Nil then show ?case by simp
next
  case (Cons x xs)
  from Cons.prems obtain keep where k: "p x = Inr keep"
    and r: "bind_err (filter_err p xs) (\<lambda>ys'. Inr (if keep then x # ys' else ys')) = Inr ys"
    by (auto dest!: bind_err_Inr)
  from r obtain ys' where ys': "filter_err p xs = Inr ys'" "ys = (if keep then x # ys' else ys')"
    by (auto dest!: bind_err_Inr)
  with Cons.IH [of ys'] k show ?case by (auto split: if_splits)
qed

lemma bind_err_InrE:
  assumes "bind_err x f = Inr y"
  obtains v where "x = Inr v" "f v = Inr y"
  using assms by (cases x) auto

lemma SentimentResult_fields:
  "SentimentResult st sid l p n u m now = Inr r \<Longrightarrow> sr_source_type r = st \<and> sr_source_id r = sid"
  by (auto simp: SentimentResult_def split: if_splits)

lemma EmotionResult_fields:
  "EmotionResult st sid a b c d e f g k m now = Inr r \<Longrightarrow>
   er_source_type r = st \<and> er_source_id r = sid"
  by (auto simp: EmotionResult_def split: if_splits)

lemma LinguisticFeatures_fields:
  "LinguisticFeatures st sid a b c d e f now = Inr r \<Longrightarrow>
   lf_source_type r = st \<and> lf_source_id r = sid"
  by (auto simp: LinguisticFeatures_def split: if_splits)

lemma aggregate_sentiment_fields:
  "aggregate_sentiment rs st sid m now = Inr agg \<Longrightarrow>
   sr_source_type agg = st \<and> sr_source_id agg = sid"
  unfolding aggregate_sentiment_def Let_def
  by (elim bind_err_InrE) (rule SentimentResult_fields)

lemma aggregate_emotions_fields:
  "aggregate_emotions rs st sid m now = Inr agg \<Longrightarrow>
   er_source_type agg = st \<and> er_source_id agg = sid"
  unfolding aggregate_emotions_def Let_def
  by (elim bind_err_InrE) (rule EmotionResult_fields)

lemma row_sentiment_fields:
  assumes "row_sentiment sa now doc st rid = Inr res"
  shows "sr_source_type res = st \<and> sr_source_id res = rid"
proof -
  from assms obtain chunks rs where
    m: "map_err (\<lambda>c. sentiment_analyze_text sa now c st rid) chunks = Inr rs"
    and r: "(if length rs = 1 then Inr (rs ! 0)
             else aggregate_sentiment rs st rid (an_model_name sa) now) = Inr res"
    unfolding row_sentiment_def by (auto dest!: bind_err_Inr)
  show ?thesis
  proof (cases "length rs = 1")
    case True
    then have "rs ! 0 \<in> set rs" by simp
    with True r have "res \<in> set rs" by simp
    with map_err_Inr [OF m] obtain c where "sentiment_analyze_text sa now c st rid = Inr res"
      by blast
    then show ?thesis using sentiment_analyze_text_result by blast
  next
    case False
    with r show ?thesis using aggregate_sentiment_fields by simp
  qed
qed

lemma row_emotion_fields:
  assumes "row_emotion ea now doc st rid = Inr res"
  shows "er_source_type res = st \<and> er_source_id res = rid"
proof -
  from assms obtain chunks rs where
    m: "map_err (\<lambda>c. emotion_analyze_text ea now c st rid) chunks = Inr rs"
    and r: "(if length rs = 1 then Inr (rs ! 0)
             else aggregate_emotions rs st rid (an_model_name ea) now) = Inr res"
    unfolding row_emotion_def by (auto dest!: bind_err_Inr)
  show ?thesis
  proof (cases "length rs = 1")
    case True
    then have "rs ! 0 \<in> set rs" by simp
    with True r have "res \<in> set rs" by simp
    with map_err_Inr [OF m] obtain c where "emotion_analyze_text ea now c st rid = Inr res"
      by blast
    then show ?thesis using emotion_analyze_text_result by blast
  next
    case False
    with r show ?thesis using aggregate_emotions_fields by simp
  qed
qed

lemma linguistic_analyze_fields:
  "linguistic_analyze la now doc st rid = Inr f \<Longrightarrow>
   lf_source_type f = st \<and> lf_source_id f = rid"
  unfolding linguistic_analyze_def
  by (elim bind_err_InrE) (auto split: prod.splits dest: LinguisticFeatures_fields)

lemma results_added_for_refl: "results_added_for db db st ids"
  unfolding results_added_for_def by blast

lemma results_added_for_trans:
  assumes a: "results_added_for db db1 st ids" and b: "results_added_for db1 db2 st ids'"
  shows "results_added_for db db2 st (ids \<union> ids')"
proof -
  have s: "\<forall>(i, x) \<in> set (sentiment_results db2).
      (i, x) \<in> set (sentiment_results db) \<or> (sr_source_type x = st \<and> sr_source_id x \<in> ids \<union> ids')"
    using a b unfolding results_added_for_def by fastforce
  have e: "\<forall>(i, x) \<in> set (emotion_results db2).
      (i, x) \<in> set (emotion_results db) \<or> (er_source_type x = st \<and> er_source_id x \<in> ids \<union> ids')"
    using a b unfolding results_added_for_def by fastforce
  have l: "\<forall>(i, x) \<in> set (linguistic_results db2).
      (i, x) \<in> set (linguistic_results db) \<or> (lf_source_type x = st \<and> lf_source_id x \<in> ids \<union> ids')"
    using a b unfolding results_added_for_def by fastforce
  have o: "oral_histories db2 = oral_histories db" "blog_posts db2 = blog_posts db"
    using a b unfolding results_added_for_def by simp_all
  from s e l o show ?thesis unfolding results_added_for_def by blast
qed

lemma insert_sentiment_added:
  assumes "sr_source_type r = st" "sr_source_id r = rid"
  shows "results_added_for db (insert_sentiment db r) st {rid}"
proof (cases "insert_sentiment db r = db")
  case True
  then show ?thesis unfolding results_added_for_def by auto
next
  case False
  then have "insert_sentiment db r =
      db\<lparr>sentiment_results := sentiment_results db @ [(next_id (sentiment_results db), r)]\<rparr>"
    unfolding insert_sentiment_def by (simp split: if_splits)
  with assms show ?thesis unfolding results_added_for_def by auto
qed

lemma insert_emotion_added:
  assumes "er_source_type r = st" "er_source_id r = rid"
  shows "results_added_for db (insert_emotion db r) st {rid}"
proof (cases "insert_emotion db r = db")
  case True
  then show ?thesis unfolding results_added_for_def by auto
next
  case False
  then have "insert_emotion db r =
      db\<lparr>emotion_results := emotion_results db @ [(next_id (emotion_results db), r)]\<rparr>"
    unfolding insert_emotion_def by (simp split: if_splits)
  with assms show ?thesis unfolding results_added_for_def by auto
qed

lemma insert_linguistic_added:
  assumes "lf_source_type r = st" "lf_source_id r = rid"
  shows "results_added_for db (insert_linguistic db r) st {rid}"
proof (cases "insert_linguistic db r = db")
  case True
  then show ?thesis unfolding results_added_for_def by auto
next
  case False
  then have "insert_linguistic db r =
      db\<lparr>linguistic_results := linguistic_results db @ [(next_id (linguistic_results db), r)]\<rparr>"
    unfolding insert_linguistic_def by (simp split: if_splits)
  with assms show ?thesis unfolding results_added_for_def by auto
qed

lemma analyze_row_added:
  "results_added_for conn (analyze_row st sa ea la now conn row) st {row_id row}"
proof (cases "row_word_count row < MIN_WORDS_FOR_ANALYSIS")
  case True
  then show ?thesis by (simp add: analyze_row_def results_added_for_refl)
next
  case False
  define conn1 where "conn1 =
     (case sa of None \<Rightarrow> conn
      | Some a \<Rightarrow> (case row_sentiment a now (row_text row) st (row_id row) of
                     Inl e \<Rightarrow> conn | Inr result \<Rightarrow> insert_sentiment conn result))"
  define conn2 where "conn2 =
     (case ea of None \<Rightarrow> conn1
      | Some a \<Rightarrow> (case row_emotion a now (row_text row) st (row_id row) of
                     Inl e \<Rightarrow> conn1 | Inr result \<Rightarrow> insert_emotion conn1 result))"
  define conn3 where "conn3 =
     (case la of None \<Rightarrow> conn2
      | Some l \<Rightarrow> (case linguistic_analyze l now (row_text row) st (row_id row) of
                     Inl e \<Rightarrow> conn2 | Inr features \<Rightarrow> insert_linguistic conn2 features))"
  have r: "analyze_row st sa ea la now conn row = conn3"
    using False by (simp only: analyze_row_def Let_def conn1_def conn2_def conn3_def if_False)
  have a1: "results_added_for conn conn1 st {row_id row}"
    unfolding conn1_def
    by (auto split: option.splits sum.splits
        intro: results_added_for_refl insert_sentiment_added dest: row_sentiment_fields)
  have a2: "results_added_for conn1 conn2 st {row_id row}"
    unfolding conn2_def
    by (auto split: option.splits sum.splits
        intro: results_added_for_refl insert_emotion_added dest: row_emotion_fields)
  have a3: "results_added_for conn2 conn3 st {row_id row}"
    unfolding conn3_def
    by (auto split: option.splits sum.splits
        intro: results_added_for_refl insert_linguistic_added dest: linguistic_analyze_fields)
  have "results_added_for conn conn3 st ({row_id row} \<union> {row_id row} \<union> {row_id row})"
    using results_added_for_trans [OF results_added_for_trans [OF a1 a2] a3] .
  then show ?thesis using r by simp
qed

lemma analyze_rows_added:
  "results_added_for conn (analyze_rows rows st sa ea la now conn) st (row_id ` set rows)"
  unfolding analyze_rows_def
proof (induction rows arbitrary: conn)
  case Nil
  show ?case by (simp add: results_added_for_refl)
next
  case (Cons row rows)
  have "results_added_for conn
      (foldl (analyze_row st sa ea la now) (analyze_row st sa ea la now conn row) rows) st
      ({row_id row} \<union> row_id ` set rows)"
    using results_added_for_trans [OF analyze_row_added Cons.IH] .
  then show ?case by simp
qed

lemma get_unanalyzed_subset:
  "get_unanalyzed conn src tbl st m = Inr rows \<Longrightarrow> set rows \<subseteq> set (source_rows conn src)"
  by (auto simp: get_unanalyzed_def split: if_splits)

lemma find_unanalyzed_subset:
  "find_unanalyzed conn src st sa ea la = Inr rows \<Longrightarrow> set rows \<subseteq> set (source_rows conn src)"
  unfolding find_unanalyzed_def
  by (auto split: option.splits dest: get_unanalyzed_subset)

lemma astronaut_only_kept:
  assumes "astronaut_only rows = Inr kept" "r \<in> set kept"
  shows "r \<in> set rows \<and> row_speaker r = Inr ''astronaut''"
proof -
  from filter_err_Inr [OF assms(1) [unfolded astronaut_only_def]] assms(2)
  have a: "r \<in> set rows" and b: "bind_err (row_speaker r) (\<lambda>s. Inr (s = ''astronaut'')) = Inr True"
    by auto
  from b show ?thesis using a by (cases r) auto
qed

lemma astronaut_rows_ids:
  assumes f: "find_unanalyzed conn OralHistoriesTable st sa ea la = Inr rows"
    and k: "astronaut_only rows = Inr kept"
  shows "row_id ` set kept \<subseteq>
    {j. \<exists>seg. (j, seg) \<in> set (oral_histories conn) \<and> oh_speaker seg = ''astronaut''}"
proof
  fix j assume "j \<in> row_id ` set kept"
  then obtain r where r: "r \<in> set kept" "row_id r = j" by auto
  from astronaut_only_kept [OF k r(1)] have m: "r \<in> set rows" "row_speaker r = Inr ''astronaut''"
    by auto
  from m(1) find_unanalyzed_subset [OF f] have "r \<in> set (source_rows conn OralHistoriesTable)"
    by auto
  then obtain i seg where s: "(i, seg) \<in> set (oral_histories conn)" "r = OralRow i seg"
    by (auto simp: source_rows_def)
  with m(2) r(2) show "j \<in> {j. \<exists>seg. (j, seg) \<in> set (oral_histories conn) \<and> oh_speaker seg = ''astronaut''}"
    by auto
qed

lemma results_added_for_mono:
  assumes "results_added_for db db' st ids" "ids \<subseteq> ids'"
  shows "results_added_for db db' st ids'"
proof -
  have s: "\<forall>(i, x) \<in> set (sentiment_results db').
      (i, x) \<in> set (sentiment_results db) \<or> (sr_source_type x = st \<and> sr_source_id x \<in> ids')"
    using assms unfolding results_added_for_def by fastforce
  have e: "\<forall>(i, x) \<in> set (emotion_results db').
      (i, x) \<in> set (emotion_results db) \<or> (er_source_type x = st \<and> er_source_id x \<in> ids')"
    using assms unfolding results_added_for_def by fastforce
  have l: "\<forall>(i, x) \<in> set (linguistic_results db').
      (i, x) \<in> set (linguistic_results db) \<or> (lf_source_type x = st \<and> lf_source_id x \<in> ids')"
    using assms unfolding results_added_for_def by fastforce
  have o: "oral_histories db' = oral_histories db" "blog_posts db' = blog_posts db"
    using assms unfolding results_added_for_def by simp_all
  from s e l o show ?thesis unfolding results_added_for_def by blast
qed

lemma run_analysis_added:
  assumes "run_analysis db ss se sl sa ea la now = Inr db'"
  shows "\<exists>conn1. results_added_for db conn1 ''blog'' UNIV \<and>
     results_added_for conn1 db' ''oral_history''
       {j. \<exists>seg. (j, seg) \<in> set (oral_histories db) \<and> oh_speaker seg = ''astronaut''}"
proof -
  let ?sa = "if \<not> ss then Some sa else None"
  let ?ea = "if \<not> se then Some ea else None"
  let ?la = "if \<not> sl then Some la else None"
  let ?c = "\<lambda>blog_rows. (if blog_rows \<noteq> []
      then analyze_rows blog_rows ''blog'' ?sa ?ea ?la now db else db)"
  from assms obtain blog_rows oh_rows kept where
    f0: "find_unanalyzed (?c blog_rows) OralHistoriesTable ''oral_history'' ?sa ?ea ?la = Inr oh_rows"
    and k: "astronaut_only oh_rows = Inr kept"
    and d0: "db' = (if kept \<noteq> []
        then analyze_rows kept ''oral_history'' ?sa ?ea ?la now (?c blog_rows)
        else ?c blog_rows)"
    unfolding run_analysis_def Let_def init_db_def by (elim bind_err_InrE) auto
  define conn1 where "conn1 = ?c blog_rows"
  have f: "find_unanalyzed conn1 OralHistoriesTable ''oral_history'' ?sa ?ea ?la = Inr oh_rows"
    using f0 by (simp only: conn1_def)
  have d: "db' = (if kept \<noteq> [] then analyze_rows kept ''oral_history'' ?sa ?ea ?la now conn1 else conn1)"
    using d0 by (simp only: conn1_def)
  have b: "results_added_for db conn1 ''blog'' UNIV"
    unfolding conn1_def
    using results_added_for_mono [OF analyze_rows_added, of _ UNIV] results_added_for_refl
    by auto
  then have oh: "oral_histories conn1 = oral_histories db"
    unfolding results_added_for_def by simp
  have ids: "row_id ` set kept \<subseteq>
      {j. \<exists>seg. (j, seg) \<in> set (oral_histories db) \<and> oh_speaker seg = ''astronaut''}"
    using astronaut_rows_ids [OF f k] oh by simp
  have "results_added_for conn1 db' ''oral_history''
       {j. \<exists>seg. (j, seg) \<in> set (oral_histories db) \<and> oh_speaker seg = ''astronaut''}"
  proof (cases "kept \<noteq> []")
    case True
    with d have "db' = analyze_rows kept ''oral_history'' ?sa ?ea ?la now conn1" by simp
    then show ?thesis
      using results_added_for_mono [OF analyze_rows_added ids] by simp
  next
    case False
    with d show ?thesis by (simp add: results_added_for_refl)
  qed
  with b show ?thesis by blast
qed

lemma example_run:
  "run_analysis example_oral_db False False False mock_sentiment mock_emotion mock_linguistic ''t1''
     = Inr example_oral_result"
  by code_simp

text \<open>
  Claim C10. Let \<open>run_analysis\<close> return, and let the ids of \<open>oral_histories\<close> be distinct
  (the primary key). For a segment whose speaker is not "astronaut", an interviewer segment
  among them, every sentiment, emotion and linguistic result for the source type
  "oral\_history" and that segment's id in the final database was in the database
  before: the run produces none. The rows kept by the filter on the unprocessed rows are
  rows whose speaker is "astronaut".
\<close>

theorem run_analysis_astronaut_only:
  assumes run: "run_analysis db skip_sentiment skip_emotion skip_linguistic sa ea la now = Inr db'"
    and pk: "distinct (map fst (oral_histories db))"
    and row: "(j, seg) \<in> set (oral_histories db)"
    and sp: "oh_speaker seg \<noteq> ''astronaut''"
  shows
    "(\<forall>(i, a) \<in> set (sentiment_results db').
        sr_source_type a = ''oral_history'' \<and> sr_source_id a = j \<longrightarrow>
        (i, a) \<in> set (sentiment_results db)) \<and>
     (\<forall>(i, a) \<in> set (emotion_results db').
        er_source_type a = ''oral_history'' \<and> er_source_id a = j \<longrightarrow>
        (i, a) \<in> set (emotion_results db)) \<and>
     (\<forall>(i, a) \<in> set (linguistic_results db').
        lf_source_type a = ''oral_history'' \<and> lf_source_id a = j \<longrightarrow>
        (i, a) \<in> set (linguistic_results db)) \<and>
     (\<forall>rows kept. astronaut_only rows = Inr kept \<longrightarrow>
        (\<forall>r \<in> set kept. r \<in> set rows \<and> row_speaker r = Inr ''astronaut''))"
proof -
  let ?A = "{j. \<exists>seg. (j, seg) \<in> set (oral_histories db) \<and> oh_speaker seg = ''astronaut''}"
  from run_analysis_added [OF run] obtain conn1 where
    b: "results_added_for db conn1 ''blog'' UNIV"
    and o: "results_added_for conn1 db' ''oral_history'' ?A"
    by blast
  have nj: "j \<notin> ?A"
  proof
    assume "j \<in> ?A"
    then obtain seg' where s: "(j, seg') \<in> set (oral_histories db)" "oh_speaker seg' = ''astronaut''"
      by blast
    from eq_key_imp_eq_value [OF pk row s(1)] s(2) sp show False by simp
  qed
  have ne: "''blog'' \<noteq> ''oral_history''" by simp
  have s: "\<forall>(i, a) \<in> set (sentiment_results db').
        sr_source_type a = ''oral_history'' \<and> sr_source_id a = j \<longrightarrow>
        (i, a) \<in> set (sentiment_results db)"
    using b o nj ne unfolding results_added_for_def by fastforce
  have e: "\<forall>(i, a) \<in> set (emotion_results db').
        er_source_type a = ''oral_history'' \<and> er_source_id a = j \<longrightarrow>
        (i, a) \<in> set (emotion_results db)"
    using b o nj ne unfolding results_added_for_def by fastforce
  have l: "\<forall>(i, a) \<in> set (linguistic_results db').
        lf_source_type a = ''oral_history'' \<and> lf_source_id a = j \<longrightarrow>
        (i, a) \<in> set (linguistic_results db)"
    using b o nj ne unfolding results_added_for_def by fastforce
  have f: "\<forall>rows kept. astronaut_only rows = Inr kept \<longrightarrow>
        (\<forall>r \<in> set kept. r \<in> set rows \<and> row_speaker r = Inr ''astronaut'')"
    using astronaut_only_kept by blast
  from s e l f show ?thesis by blast
qed

theorem run_analysis_astronaut_only_witness:
  "run_analysis example_oral_db False False False mock_sentiment mock_emotion mock_linguistic ''t1''
     = Inr example_oral_result \<and>
   distinct (map fst (oral_histories example_oral_db)) \<and>
   (1, example_segment ''interviewer'' ''How was it?'') \<in> set (oral_histories example_oral_db) \<and>
   oh_speaker (example_segment ''interviewer'' ''How was it?'') \<noteq> ''astronaut'' \<and>
   map (sr_source_id \<circ> snd) (sentiment_results example_oral_result) = [2] \<and>
   map (er_source_id \<circ> snd) (emotion_results example_oral_result) = [2] \<and>
   map (lf_source_id \<circ> snd) (linguistic_results example_oral_result) = [2] \<and>
   astronaut_only [OralRow 1 (example_segment ''interviewer'' ''How was it?''),
                   OralRow 2 (example_segment ''astronaut'' ''It was fine.'')] =
     Inr [OralRow 2 (example_segment ''astronaut'' ''It was fine.'')]"
proof -
  have pk: "distinct (map fst (oral_histories example_oral_db))"
    by (simp add: example_oral_db_def)
  have row: "(1, example_segment ''interviewer'' ''How was it?'') \<in> set (oral_histories example_oral_db)"
    by (simp add: example_oral_db_def)
  have sp: "oh_speaker (example_segment ''interviewer'' ''How was it?'') \<noteq> ''astronaut''"
    by (simp add: example_segment_def)
  note t = run_analysis_astronaut_only [OF example_run pk row sp]
  have ids: "map (sr_source_id \<circ> snd) (sentiment_results example_oral_result) = [2]"
    "map (er_source_id \<circ> snd) (emotion_results example_oral_result) = [2]"
    "map (lf_source_id \<circ> snd) (linguistic_results example_oral_result) = [2]"
    by (simp_all add: example_oral_result_def)
  have ao: "astronaut_only [OralRow 1 (example_segment ''interviewer'' ''How was it?''),
                   OralRow 2 (example_segment ''astronaut'' ''It was fine.'')] =
     Inr [OralRow 2 (example_segment ''astronaut'' ''It was fine.'')]"
    by (simp add: astronaut_only_def example_segment_def)
  have "row_speaker (OralRow 2 (example_segment ''astronaut'' ''It was fine.'')) = Inr ''astronaut''"
    using t ao by fastforce
  with example_run pk row sp ids ao show ?thesis by simp
qed

section \<open>Properties of the checkpoint store\<close>










end
